theory Spec2Isabelle
  imports Complex_Main
begin

section \<open>Python values\<close>

text \<open>
  The Agent of \<^verbatim>\<open>alf/algorithms/agent.py\<close> moves dynamically typed values between
  its sub-algorithms. A numeric value is a Python float or a tensor, with a content of
  type \<open>'a\<close> (one scalar stands for a tensor). The sums and products of the Python
  runtime and of the tensor library are the operations \<open>+\<close> and \<open>*\<close> of that type, of
  which nothing is assumed: they round as the library does, in whatever precision the
  values have. \<open>Unit\<close> is the empty tuple \<^verbatim>\<open>()\<close>, the default of every field of the
  composite records. \<open>Obj n\<close> is any other object (a nest, a spec, an action): it has
  no arithmetic with floats and no attribute that the Agent reads. \<open>ICMInfo r x\<close> is the
  info record of the curiosity module: \<open>r\<close> is its attribute \<^verbatim>\<open>reward\<close>, \<open>x\<close> the rest.
\<close>

datatype 'a num = PyFloat 'a | Tensor 'a

datatype 'a pyval = Unit | Num "'a num" | Obj nat | ICMInfo "'a pyval" "'a pyval"

datatype error = AttributeError | TypeError | ValueError

text \<open>\<^verbatim>\<open>isinstance(v, tf.Tensor)\<close>\<close>

fun isinstance_Tensor :: "'a pyval \<Rightarrow> bool" where
  "isinstance_Tensor (Num (Tensor t)) = True"
| "isinstance_Tensor v = False"

text \<open>The number a numeric value stands for.\<close>

fun num_val :: "'a num \<Rightarrow> 'a" where
  "num_val (PyFloat x) = x"
| "num_val (Tensor t) = t"

text \<open>The content of a tensor (and \<open>0\<close> for a value that is not one).\<close>

fun tensor_val :: "('a::zero) pyval \<Rightarrow> 'a" where
  "tensor_val (Num (Tensor t)) = t"
| "tensor_val v = 0"

text \<open>\<^verbatim>\<open>v.reward\<close>: only the curiosity module's info record has the attribute.\<close>

fun getattr_reward :: "'a pyval \<Rightarrow> error + 'a pyval" where
  "getattr_reward (ICMInfo r x) = Inr r"
| "getattr_reward v = Inl AttributeError"

text \<open>\<^verbatim>\<open>reward * coef\<close> for a numeric reward and a float coefficient.\<close>

fun num_mul :: "('a::times) num \<Rightarrow> 'a \<Rightarrow> 'a num" where
  "num_mul (PyFloat x) c = PyFloat (x * c)"
| "num_mul (Tensor t) c = Tensor (t * c)"

text \<open>\<^verbatim>\<open>coef * v\<close> for a float coefficient: a float times a tuple or an object raises.\<close>

fun float_mul :: "('a::times) \<Rightarrow> 'a pyval \<Rightarrow> error + 'a num" where
  "float_mul c (Num (PyFloat x)) = Inr (PyFloat (c * x))"
| "float_mul c (Num (Tensor t)) = Inr (Tensor (c * t))"
| "float_mul c v = Inl TypeError"

text \<open>\<^verbatim>\<open>x + y\<close> on numeric values: the sum is a float only when both are floats.\<close>

fun num_add :: "('a::plus) num \<Rightarrow> 'a num \<Rightarrow> 'a num" where
  "num_add (PyFloat x) (PyFloat y) = PyFloat (x + y)"
| "num_add x y = Tensor (num_val x + num_val y)"

text \<open>
  A reward is an object with an identity (\<^verbatim>\<open>id(reward)\<close>) and a numeric value:
  \<^verbatim>\<open>calc_training_reward\<close> compares identities.
\<close>

record 'a pyobj =
  oid :: nat
  oval :: "'a num"

section \<open>The composite records\<close>

text \<open>
  Modelled from the spec: the helper \<^verbatim>\<open>namedtuple\<close> is imported from another module.
  It builds a record type of fixed shape, with the fields listed, each of which takes
  \<^verbatim>\<open>default_value\<close> when the constructor is not given it. So
  \<^verbatim>\<open>AgentState = namedtuple("AgentState", ["rl", "icm"], default_value=())\<close> is a record
  with the two fields \<^verbatim>\<open>rl\<close> and \<^verbatim>\<open>icm\<close>, and \<^verbatim>\<open>AgentInfo\<close> and
  \<^verbatim>\<open>AgentLossInfo\<close> are records with the three fields \<^verbatim>\<open>rl\<close>, \<^verbatim>\<open>icm\<close>,
  \<^verbatim>\<open>entropy_target\<close>.
\<close>

record 'a agent_state =
  state_rl :: "'a pyval"
  state_icm :: "'a pyval"

definition AgentState :: "'a agent_state" where
  "AgentState = \<lparr>state_rl = Unit, state_icm = Unit\<rparr>"

record 'a agent_info =
  info_rl :: "'a pyval"
  info_icm :: "'a pyval"
  info_entropy_target :: "'a pyval"

definition AgentInfo :: "'a agent_info" where
  "AgentInfo = \<lparr>info_rl = Unit, info_icm = Unit, info_entropy_target = Unit\<rparr>"

record 'a agent_loss_info =
  extra_rl :: "'a pyval"
  extra_icm :: "'a pyval"
  extra_entropy_target :: "'a pyval"

text \<open>\<^verbatim>\<open>AgentLossInfo(rl=x)\<close>: the other two fields take the default.\<close>

definition AgentLossInfo :: "'a pyval \<Rightarrow> 'a agent_loss_info" where
  "AgentLossInfo x = \<lparr>extra_rl = x, extra_icm = Unit, extra_entropy_target = Unit\<rparr>"

text \<open>The field names and values of an \<^verbatim>\<open>AgentLossInfo\<close>, as \<^verbatim>\<open>_asdict()\<close> lists them.\<close>

definition asdict_AgentLossInfo :: "'a agent_loss_info \<Rightarrow> (string \<times> 'a pyval) list" where
  "asdict_AgentLossInfo x =
     [(''rl'', extra_rl x), (''icm'', extra_icm x), (''entropy_target'', extra_entropy_target x)]"

text \<open>\<^verbatim>\<open>getattr(info, name)\<close> on an \<^verbatim>\<open>AgentInfo\<close>.\<close>

definition getattr_AgentInfo :: "'a agent_info \<Rightarrow> string \<Rightarrow> error + 'a pyval" where
  "getattr_AgentInfo i name =
     (if name = ''rl'' then Inr (info_rl i)
      else if name = ''icm'' then Inr (info_icm i)
      else if name = ''entropy_target'' then Inr (info_entropy_target i)
      else Inl AttributeError)"

text \<open>\<^verbatim>\<open>x._replace(**{name: v})\<close> on an \<^verbatim>\<open>AgentLossInfo\<close>; an unknown field name raises.\<close>

definition replace_AgentLossInfo :: "'a agent_loss_info \<Rightarrow> string \<Rightarrow> 'a pyval \<Rightarrow> error + 'a agent_loss_info" where
  "replace_AgentLossInfo x name v =
     (if name = ''rl'' then Inr (x\<lparr>extra_rl := v\<rparr>)
      else if name = ''icm'' then Inr (x\<lparr>extra_icm := v\<rparr>)
      else if name = ''entropy_target'' then Inr (x\<lparr>extra_entropy_target := v\<rparr>)
      else Inl ValueError)"

text \<open>
  Modelled from the spec: the records of the framework that the Agent reads and
  rebuilds (time-step, policy step, algorithm step, loss record, training-info,
  experience) are declared outside this module. Each has the fields that the Agent
  names; the fields it does not touch travel in one \<open>rest\<close> field.
\<close>

record 'a time_step =
  observation :: "'a pyval"
  prev_action :: "'a pyval"
  ts_rest :: "'a pyval"

record ('a, 's, 'i) policy_step =
  ps_action :: "'a pyval"
  ps_state :: 's
  ps_info :: 'i

record 'a algorithm_step =
  as_outputs :: "'a pyval"
  as_state :: "'a pyval"
  as_info :: "'a pyval"

record ('a, 'e) loss_info =
  loss :: "'a pyval"
  scalar_loss :: "'a pyval"
  extra :: 'e

record ('a, 'i) training_info =
  ti_reward :: "'a pyobj"
  ti_info :: 'i
  ti_rest :: "'a pyval"

record 'a experience =
  exp_reward :: "'a pyobj"
  exp_info :: "'a agent_info"
  exp_rest :: "'a pyval"

section \<open>Sub-algorithms and the trace of their calls\<close>

text \<open>
  Every call that the Agent makes to a collaborator is recorded, with its arguments and
  the value it returned, in the order in which it is made. A sub-algorithm is an object
  with variables of its own, so each of its methods is a function of the calls made so
  far and of its arguments.
\<close>

datatype 'a call =
    EncodingNetwork "'a pyval" "'a pyval \<times> 'a pyval"
  | RlPredict "'a time_step" "'a pyval" "('a, 'a pyval, 'a pyval) policy_step"
  | RlRollout "'a time_step" "'a pyval" "('a, 'a pyval, 'a pyval) policy_step"
  | IcmTrainStep "'a pyval \<times> 'a pyval" "'a pyval" bool "'a algorithm_step"
  | EntropyTargetTrainStep "'a pyval" "'a algorithm_step"
  | RlCalcLoss "('a, 'a pyval) training_info" "('a, 'a pyval) loss_info"
  | CalcLoss string "'a pyval" "('a, 'a pyval) loss_info"
  | RlPreprocessExperience "'a experience" "'a experience"
  | AddRewardSummary string "'a pyval"

record 'a rl_algorithm =
  rl_train_state_spec :: "'a pyval"
  rl_predict_state_spec :: "'a pyval"
  rl_predict :: "'a call list \<Rightarrow> 'a time_step \<Rightarrow> 'a pyval \<Rightarrow> ('a, 'a pyval, 'a pyval) policy_step"
  rl_rollout :: "'a call list \<Rightarrow> 'a time_step \<Rightarrow> 'a pyval \<Rightarrow> ('a, 'a pyval, 'a pyval) policy_step"
  rl_calc_loss :: "'a call list \<Rightarrow> ('a, 'a pyval) training_info \<Rightarrow> ('a, 'a pyval) loss_info"
  rl_preprocess_experience :: "'a call list \<Rightarrow> 'a experience \<Rightarrow> 'a experience"

text \<open>What \<^verbatim>\<open>_update_loss\<close> needs of a sub-algorithm: its \<^verbatim>\<open>calc_loss\<close>.\<close>

record 'a algorithm =
  alg_calc_loss :: "'a call list \<Rightarrow> 'a pyval \<Rightarrow> ('a, 'a pyval) loss_info"

record 'a icm_algorithm = "'a algorithm" +
  icm_train_state_spec :: "'a pyval"
  icm_predict_state_spec :: "'a pyval"
  icm_train_step :: "'a call list \<Rightarrow> 'a pyval \<times> 'a pyval \<Rightarrow> 'a pyval \<Rightarrow> bool \<Rightarrow> 'a algorithm_step"

record 'a entropy_target_algorithm = "'a algorithm" +
  et_train_step :: "'a call list \<Rightarrow> 'a pyval \<Rightarrow> 'a algorithm_step"

text \<open>What an operation of the Agent changes: the trace, and the next free object identity.\<close>

record 'a env =
  trace :: "'a call list"
  next_id :: nat

definition record_call :: "'a call \<Rightarrow> 'a env \<Rightarrow> 'a env" where
  "record_call c e = e\<lparr>trace := trace e @ [c]\<rparr>"

text \<open>
  A float or a tensor is immutable: \<^verbatim>\<open>reward *= c\<close> and \<^verbatim>\<open>reward += x\<close> bind the name
  to a new object, whose identity no earlier object has.
\<close>

definition new_object :: "'a num \<Rightarrow> 'a env \<Rightarrow> 'a pyobj \<times> 'a env" where
  "new_object v e = (\<lparr>oid = next_id e, oval = v\<rparr>, e\<lparr>next_id := Suc (next_id e)\<rparr>)"

text \<open>
  Modelled from the spec: \<^verbatim>\<open>add_reward_summary\<close> is a method of the base class, which
  is not in this module. It emits a diagnostic record of the reward under the given name.
\<close>

definition add_reward_summary :: "string \<Rightarrow> 'a pyval \<Rightarrow> 'a env \<Rightarrow> 'a env" where
  "add_reward_summary name rewards e = record_call (AddRewardSummary name rewards) e"

section \<open>The Agent\<close>

record 'a agent =
  rl_algorithm :: "'a rl_algorithm"
  entropy_target_algorithm :: "'a entropy_target_algorithm option"
  encoding_network :: "('a call list \<Rightarrow> 'a pyval \<Rightarrow> 'a pyval \<times> 'a pyval) option"
  intrinsic_reward_coef :: 'a
  extrinsic_reward_coef :: 'a
  icm :: "'a icm_algorithm option"
  train_state_spec :: "'a agent_state"
  predict_state_spec :: "'a agent_state"

text \<open>
  \<^verbatim>\<open>Agent.__init__\<close>. The two constructors it calls (the policy algorithm class and
  \<^verbatim>\<open>EntropyTargetAlgorithm\<close>) are parameters. The grouping of optimizers and trainable
  variables plays no part in the state specs and is left out; the base class keeps the
  two state specs as they are passed to it.
\<close>

definition Agent_init ::
  "'a pyval \<Rightarrow> ('a pyval \<Rightarrow> bool \<Rightarrow> 'a rl_algorithm) \<Rightarrow> ('a call list \<Rightarrow> 'a pyval \<Rightarrow> 'a pyval \<times> 'a pyval) option \<Rightarrow>
   'a icm_algorithm option \<Rightarrow> 'a \<Rightarrow> 'a \<Rightarrow> bool \<Rightarrow> ('a pyval \<Rightarrow> bool \<Rightarrow> 'a entropy_target_algorithm) \<Rightarrow>
   bool \<Rightarrow> 'a agent" where
  "Agent_init action_spec rl_algorithm_cls encoder intrinsic_curiosity_module
       intrinsic_coef extrinsic_coef enforce_entropy_target EntropyTargetAlgorithm debug_summaries =
     (let rl = rl_algorithm_cls action_spec debug_summaries;
          train_spec = AgentState\<lparr>state_rl := rl_train_state_spec rl\<rparr>;
          predict_spec = AgentState\<lparr>state_rl := rl_predict_state_spec rl\<rparr>;
          train_spec =
            (case intrinsic_curiosity_module of
               None \<Rightarrow> train_spec
             | Some m \<Rightarrow> train_spec\<lparr>state_icm := icm_train_state_spec m\<rparr>);
          et = (if enforce_entropy_target
                then Some (EntropyTargetAlgorithm action_spec debug_summaries)
                else None)
      in \<lparr>rl_algorithm = rl,
          entropy_target_algorithm = et,
          encoding_network = encoder,
          intrinsic_reward_coef = intrinsic_coef,
          extrinsic_reward_coef = extrinsic_coef,
          icm = intrinsic_curiosity_module,
          train_state_spec = train_spec,
          predict_state_spec = predict_spec\<rparr>)"

text \<open>\<^verbatim>\<open>Agent._encode\<close>\<close>

definition encode :: "'a agent \<Rightarrow> 'a time_step \<Rightarrow> 'a env \<Rightarrow> 'a pyval \<times> 'a env" where
  "encode self ts e =
     (case encoding_network self of
        None \<Rightarrow> (observation ts, e)
      | Some net \<Rightarrow>
          (let out = net (trace e) (observation ts)
           in (fst out, record_call (EncodingNetwork (observation ts) out) e)))"

text \<open>\<^verbatim>\<open>Agent.predict\<close>\<close>

definition predict ::
  "'a agent \<Rightarrow> 'a time_step \<Rightarrow> 'a agent_state \<Rightarrow> 'a env \<Rightarrow> ('a, 'a agent_state, 'a pyval) policy_step \<times> 'a env" where
  "predict self ts st e =
     (case encode self ts e of
        (obs, e1) \<Rightarrow>
          (let new_state = AgentState;
               arg = ts\<lparr>observation := obs\<rparr>;
               rl_step = rl_predict (rl_algorithm self) (trace e1) arg (state_rl st);
               e2 = record_call (RlPredict arg (state_rl st) rl_step) e1;
               new_state = new_state\<lparr>state_rl := ps_state rl_step\<rparr>
           in (\<lparr>ps_action = ps_action rl_step, ps_state = new_state, ps_info = Unit\<rparr>, e2)))"

text \<open>\<^verbatim>\<open>Agent.rollout\<close>\<close>

definition rollout ::
  "'a agent \<Rightarrow> 'a time_step \<Rightarrow> 'a agent_state \<Rightarrow> bool \<Rightarrow> 'a env \<Rightarrow>
   ('a, 'a agent_state, 'a agent_info) policy_step \<times> 'a env" where
  "rollout self ts st with_experience e =
     (let new_state = AgentState;
          info = AgentInfo
      in case encode self ts e of
        (obs, e1) \<Rightarrow>
          (case (case icm self of
                   None \<Rightarrow> (new_state, info, e1)
                 | Some m \<Rightarrow>
                     (let icm_step = icm_train_step m (trace e1) (obs, prev_action ts)
                                       (state_icm st) (\<not> with_experience)
                      in (new_state\<lparr>state_icm := as_state icm_step\<rparr>,
                          info\<lparr>info_icm := as_info icm_step\<rparr>,
                          record_call (IcmTrainStep (obs, prev_action ts) (state_icm st)
                                         (\<not> with_experience) icm_step) e1))) of
             (new_state, info, e2) \<Rightarrow>
               (let arg = ts\<lparr>observation := obs\<rparr>;
                    rl_step = rl_rollout (rl_algorithm self) (trace e2) arg (state_rl st);
                    e3 = record_call (RlRollout arg (state_rl st) rl_step) e2;
                    new_state = new_state\<lparr>state_rl := ps_state rl_step\<rparr>;
                    info = info\<lparr>info_rl := ps_info rl_step\<rparr>
                in case (case entropy_target_algorithm self of
                           None \<Rightarrow> (info, e3)
                         | Some et \<Rightarrow>
                             (let et_step = et_train_step et (trace e3) (ps_action rl_step)
                              in (info\<lparr>info_entropy_target := as_info et_step\<rparr>,
                                  record_call (EntropyTargetTrainStep (ps_action rl_step) et_step) e3))) of
                     (info, e4) \<Rightarrow>
                       (\<lparr>ps_action = ps_action rl_step, ps_state = new_state, ps_info = info\<rparr>, e4))))"

text \<open>
  \<^verbatim>\<open>Agent.calc_training_reward\<close>. An exception leaves the trace as it was when it was
  raised.
\<close>

definition calc_training_reward ::
  "('a::{one,plus,times}) agent \<Rightarrow> 'a pyobj \<Rightarrow> 'a agent_info \<Rightarrow> 'a env \<Rightarrow> (error + 'a pyobj) \<times> 'a env" where
  "calc_training_reward self external_reward info e =
     (case (if extrinsic_reward_coef self \<noteq> 1
            then new_object (num_mul (oval external_reward) (extrinsic_reward_coef self)) e
            else (external_reward, e)) of
        (reward, e1) \<Rightarrow>
          (case (case icm self of
                   None \<Rightarrow> (Inr reward, e1)
                 | Some m \<Rightarrow>
                     (case getattr_reward (info_icm info) of
                        Inl err \<Rightarrow> (Inl err, e1)
                      | Inr icm_reward \<Rightarrow>
                          (let e2 = add_reward_summary ''reward/icm'' icm_reward e1
                           in case float_mul (intrinsic_reward_coef self) icm_reward of
                                Inl err \<Rightarrow> (Inl err, e2)
                              | Inr x \<Rightarrow>
                                  (case new_object (num_add (oval reward) x) e2 of
                                     (reward, e3) \<Rightarrow> (Inr reward, e3))))) of
             (Inl err, e4) \<Rightarrow> (Inl err, e4)
           | (Inr reward, e4) \<Rightarrow>
               (Inr reward,
                if oid reward \<noteq> oid external_reward
                then add_reward_summary ''reward/overall'' (Num (oval reward)) e4
                else e4)))"

text \<open>The local function \<^verbatim>\<open>_add\<close> of \<^verbatim>\<open>calc_loss\<close>.\<close>

definition calc_loss_add :: "('a::{zero,plus}) pyval \<Rightarrow> 'a pyval \<Rightarrow> 'a pyval" where
  "calc_loss_add x y =
     (if \<not> isinstance_Tensor y then x
      else if \<not> isinstance_Tensor x then y
      else Num (Tensor (tensor_val x + tensor_val y)))"

text \<open>The local function \<^verbatim>\<open>_update_loss\<close> of \<^verbatim>\<open>calc_loss\<close>.\<close>

definition calc_loss_update_loss ::
  "('a::{zero,plus}, 'a agent_loss_info) loss_info \<Rightarrow> ('a, 'a agent_info) training_info \<Rightarrow> string \<Rightarrow>
   ('a, 'z) algorithm_scheme option \<Rightarrow> 'a env \<Rightarrow> (error + ('a, 'a agent_loss_info) loss_info) \<times> 'a env" where
  "calc_loss_update_loss loss_info training_info name alg e =
     (case alg of
        None \<Rightarrow> (Inr loss_info, e)
      | Some algorithm \<Rightarrow>
          (case getattr_AgentInfo (ti_info training_info) name of
             Inl err \<Rightarrow> (Inl err, e)
           | Inr arg \<Rightarrow>
               (let new_loss_info = alg_calc_loss algorithm (trace e) arg;
                    e1 = record_call (CalcLoss name arg new_loss_info) e
                in case replace_AgentLossInfo (extra loss_info) name (extra new_loss_info) of
                     Inl err \<Rightarrow> (Inl err, e1)
                   | Inr ex \<Rightarrow>
                       (Inr \<lparr>loss = calc_loss_add (loss loss_info) (loss new_loss_info),
                             scalar_loss = calc_loss_add (scalar_loss loss_info)
                                             (scalar_loss new_loss_info),
                             extra = ex\<rparr>, e1))))"

text \<open>
  The first statement of \<^verbatim>\<open>calc_loss\<close>: the training-info that the loss computation
  works on. \<^verbatim>\<open>and\<close> reads the reward attribute only when a curiosity module is there.
\<close>

definition calc_loss_training_info ::
  "('a::{one,plus,times}) agent \<Rightarrow> ('a, 'a agent_info) training_info \<Rightarrow> 'a env \<Rightarrow> (error + ('a, 'a agent_info) training_info) \<times> 'a env" where
  "calc_loss_training_info self training_info e =
     (case (case icm self of
              None \<Rightarrow> Inr False
            | Some m \<Rightarrow>
                (case getattr_reward (info_icm (ti_info training_info)) of
                   Inl err \<Rightarrow> Inl err
                 | Inr r \<Rightarrow> Inr (isinstance_Tensor r))) of
        Inl err \<Rightarrow> (Inl err, e)
      | Inr False \<Rightarrow> (Inr training_info, e)
      | Inr True \<Rightarrow>
          (case calc_training_reward self (ti_reward training_info) (ti_info training_info) e of
             (Inl err, e1) \<Rightarrow> (Inl err, e1)
           | (Inr r, e1) \<Rightarrow> (Inr (training_info\<lparr>ti_reward := r\<rparr>), e1)))"

text \<open>\<^verbatim>\<open>Agent.calc_loss\<close>\<close>

definition calc_loss ::
  "('a::{zero,one,plus,times}) agent \<Rightarrow> ('a, 'a agent_info) training_info \<Rightarrow> 'a env \<Rightarrow> (error + ('a, 'a agent_loss_info) loss_info) \<times> 'a env" where
  "calc_loss self training_info e =
     (case calc_loss_training_info self training_info e of
        (Inl err, e1) \<Rightarrow> (Inl err, e1)
      | (Inr training_info, e1) \<Rightarrow>
          (let arg = \<lparr>ti_reward = ti_reward training_info,
                      ti_info = info_rl (ti_info training_info),
                      ti_rest = ti_rest training_info\<rparr>;
               rl_loss_info = rl_calc_loss (rl_algorithm self) (trace e1) arg;
               e2 = record_call (RlCalcLoss arg rl_loss_info) e1;
               loss_info = \<lparr>loss = loss rl_loss_info,
                            scalar_loss = scalar_loss rl_loss_info,
                            extra = AgentLossInfo (extra rl_loss_info)\<rparr>
           in case calc_loss_update_loss loss_info training_info ''icm'' (icm self) e2 of
                (Inl err, e3) \<Rightarrow> (Inl err, e3)
              | (Inr loss_info, e3) \<Rightarrow>
                  calc_loss_update_loss loss_info training_info ''entropy_target''
                    (entropy_target_algorithm self) e3))"

text \<open>\<^verbatim>\<open>Agent.preprocess_experience\<close>\<close>

definition preprocess_experience ::
  "('a::{one,plus,times}) agent \<Rightarrow> 'a experience \<Rightarrow> 'a env \<Rightarrow> (error + 'a experience) \<times> 'a env" where
  "preprocess_experience self exper e =
     (case calc_training_reward self (exp_reward exper) (exp_info exper) e of
        (Inl err, e1) \<Rightarrow> (Inl err, e1)
      | (Inr reward, e1) \<Rightarrow>
          (let arg = exper\<lparr>exp_reward := reward\<rparr>;
               out = rl_preprocess_experience (rl_algorithm self) (trace e1) arg
           in (Inr out, record_call (RlPreprocessExperience arg out) e1)))"

section \<open>The lifetime of an agent\<close>

text \<open>
  After construction an agent is used through its five methods. None of them assigns an
  attribute of the agent, so each leaves the agent as it was and changes the trace only.
\<close>

datatype 'a agent_call =
    DoPredict "'a time_step" "'a agent_state"
  | DoRollout "'a time_step" "'a agent_state" bool
  | DoCalcTrainingReward "'a pyobj" "'a agent_info"
  | DoCalcLoss "('a, 'a agent_info) training_info"
  | DoPreprocessExperience "'a experience"

fun perform :: "('a::{zero,one,plus,times}) agent \<Rightarrow> 'a agent_call \<Rightarrow> 'a env \<Rightarrow> 'a agent \<times> 'a env" where
  "perform self (DoPredict ts st) e = (self, snd (predict self ts st e))"
| "perform self (DoRollout ts st with_experience) e = (self, snd (rollout self ts st with_experience e))"
| "perform self (DoCalcTrainingReward r info) e = (self, snd (calc_training_reward self r info e))"
| "perform self (DoCalcLoss ti) e = (self, snd (calc_loss self ti e))"
| "perform self (DoPreprocessExperience x) e = (self, snd (preprocess_experience self x e))"

fun lifetime :: "('a::{zero,one,plus,times}) agent \<Rightarrow> 'a agent_call list \<Rightarrow> 'a env \<Rightarrow> 'a agent \<times> 'a env" where
  "lifetime self [] e = (self, e)"
| "lifetime self (c # cs) e = (case perform self c e of (self', e') \<Rightarrow> lifetime self' cs e')"

section \<open>Reading the trace\<close>

text \<open>The calls made between two environments, the later one reached from the earlier.\<close>

definition new_calls :: "'a env \<Rightarrow> 'a env \<Rightarrow> 'a call list" where
  "new_calls e e' = drop (length (trace e)) (trace e')"

text \<open>The loss record that a call returned, under the name of the sub-algorithm.\<close>

fun loss_returned :: "'a call \<Rightarrow> (string \<times> ('a, 'a pyval) loss_info) list" where
  "loss_returned (RlCalcLoss a r) = [(''rl'', r)]"
| "loss_returned (CalcLoss name a r) = [(name, r)]"
| "loss_returned c = []"

definition sub_losses :: "'a env \<Rightarrow> 'a env \<Rightarrow> (string \<times> ('a, 'a pyval) loss_info) list" where
  "sub_losses e e' = concat (map loss_returned (new_calls e e'))"

text \<open>The training-info that the policy sub-algorithm's loss computation was given.\<close>

fun rl_loss_input :: "'a call \<Rightarrow> ('a, 'a pyval) training_info list" where
  "rl_loss_input (RlCalcLoss a r) = [a]"
| "rl_loss_input c = []"

definition rl_loss_inputs :: "'a env \<Rightarrow> 'a env \<Rightarrow> ('a, 'a pyval) training_info list" where
  "rl_loss_inputs e e' = concat (map rl_loss_input (new_calls e e'))"

text \<open>The combined-reward diagnostic.\<close>

fun is_overall_summary :: "'a call \<Rightarrow> bool" where
  "is_overall_summary (AddRewardSummary name v) = (name = ''reward/overall'')"
| "is_overall_summary c = False"


text \<open>The sum of a list of losses in order, as \<^verbatim>\<open>_add\<close> folds it.\<close>

fun add_in_order :: "('a::{zero,plus}) pyval list \<Rightarrow> 'a pyval" where
  "add_in_order [] = Unit"
| "add_in_order (x # xs) = foldl calc_loss_add x xs"

text \<open>
  The same sum in the spec's words: the values that are not tensors contribute nothing,
  and the tensors are added from left to right by the library's addition. When no value
  is a tensor, the result is the first value.
\<close>

fun tensors :: "'a pyval list \<Rightarrow> 'a list" where
  "tensors [] = []"
| "tensors (Num (Tensor t) # xs) = t # tensors xs"
| "tensors (x # xs) = tensors xs"

definition tensor_sum :: "('a::plus) pyval list \<Rightarrow> 'a pyval" where
  "tensor_sum xs =
     (case tensors xs of
        [] \<Rightarrow> (case xs of [] \<Rightarrow> Unit | x # ys \<Rightarrow> x)
      | t # ts \<Rightarrow> Num (Tensor (foldl (+) t ts)))"

section \<open>The loss aggregation in the spec's words\<close>

text \<open>
  The spec's account of the loss aggregation, to compare \<^verbatim>\<open>calc_loss\<close> with. The
  sub-algorithms that are present compute their losses in the order policy, curiosity,
  entropy-target controller, each from its slice of the info.
\<close>

definition spec_loss_calls :: "'a agent \<Rightarrow> ('a, 'a agent_info) training_info \<Rightarrow> 'a call list \<Rightarrow> 'a call list" where
  "spec_loss_calls self ti h =
     (let arg = \<lparr>ti_reward = ti_reward ti, ti_info = info_rl (ti_info ti), ti_rest = ti_rest ti\<rparr>;
          policy = [RlCalcLoss arg (rl_calc_loss (rl_algorithm self) h arg)];
          curiosity =
            (case icm self of
               None \<Rightarrow> []
             | Some m \<Rightarrow> [CalcLoss ''icm'' (info_icm (ti_info ti))
                            (alg_calc_loss m (h @ policy) (info_icm (ti_info ti)))]);
          entropy =
            (case entropy_target_algorithm self of
               None \<Rightarrow> []
             | Some t \<Rightarrow> [CalcLoss ''entropy_target'' (info_entropy_target (ti_info ti))
                            (alg_calc_loss t (h @ policy @ curiosity)
                               (info_entropy_target (ti_info ti)))])
      in policy @ curiosity @ entropy)"

text \<open>
  The composite loss record: the losses are added in order, and each field of the extra
  record holds the extra of the sub-algorithm of that name, or \<^verbatim>\<open>()\<close> when there is none.
\<close>

definition spec_extra :: "(string \<times> ('a, 'a pyval) loss_info) list \<Rightarrow> string \<Rightarrow> 'a pyval" where
  "spec_extra subs name = (case map_of subs name of None \<Rightarrow> Unit | Some r \<Rightarrow> extra r)"

definition spec_loss_info :: "(string \<times> ('a::{zero,plus}, 'a pyval) loss_info) list \<Rightarrow> ('a, 'a agent_loss_info) loss_info" where
  "spec_loss_info subs =
     \<lparr>loss = add_in_order (map (loss \<circ> snd) subs),
      scalar_loss = add_in_order (map (scalar_loss \<circ> snd) subs),
      extra = \<lparr>extra_rl = spec_extra subs ''rl'', extra_icm = spec_extra subs ''icm'',
               extra_entropy_target = spec_extra subs ''entropy_target''\<rparr>\<rparr>"

section \<open>Binary64 numbers\<close>

text \<open>
  The scenario below runs on Python floats and on tensors of 64-bit floats. \<open>Dbl m e\<close> is
  the IEEE binary64 number \<open>m * 2 ^ e\<close>, kept in the format's own form: the mantissa has 53
  bits and the exponent lies between \<open>- 1074\<close> and \<open>971\<close>, or the exponent is \<open>- 1074\<close>
  and the mantissa is shorter (zero and the subnormal numbers). \<open>NonFinite\<close> stands for
  the infinities and NaN. Sums and products are rounded to the nearest number of the
  format, ties to the even mantissa, and overflow gives \<open>NonFinite\<close>.
\<close>

datatype double = Dbl int int | NonFinite

function bit_length :: "int \<Rightarrow> int" where
  "bit_length a = (if a \<le> 0 then 0 else 1 + bit_length (a div 2))"
  by pat_completeness auto
termination
  by (relation "measure nat") auto

text \<open>\<open>a / 2 ^ k\<close> rounded to the nearest integer, ties to even, for \<open>a \<ge> 0\<close>.\<close>

definition round_half_even :: "int \<Rightarrow> nat \<Rightarrow> int" where
  "round_half_even a k =
     (let q = a div 2 ^ k; r = a mod 2 ^ k; h = 2 ^ (k - 1)
      in if r < h then q else if h < r then q + 1 else if even q then q else q + 1)"

text \<open>The binary64 number nearest to \<open>a * 2 ^ e\<close>.\<close>

definition round_double :: "int \<Rightarrow> int \<Rightarrow> double" where
  "round_double a e =
     (if a = 0 then Dbl 0 (- 1074)
      else
        (let n = bit_length \<bar>a\<bar>;
             e1 = max (e + n - 53) (- 1074);
             m1 = (if e1 \<le> e then \<bar>a\<bar> * 2 ^ nat (e - e1)
                   else round_half_even \<bar>a\<bar> (nat (e1 - e)));
             m2 = (if m1 = 2 ^ 53 then 2 ^ 52 else m1);
             e2 = (if m1 = 2 ^ 53 then e1 + 1 else e1)
         in if 971 < e2 then NonFinite else Dbl (if a < 0 then - m2 else m2) e2))"

instantiation double :: "{zero, one, plus, times}"
begin

definition zero_double :: double where
  "zero_double = Dbl 0 (- 1074)"

definition one_double :: double where
  "one_double = Dbl 4503599627370496 (- 52)"

fun plus_double :: "double \<Rightarrow> double \<Rightarrow> double" where
  "plus_double (Dbl m1 e1) (Dbl m2 e2) =
     (let e = min e1 e2
      in round_double (m1 * 2 ^ nat (e1 - e) + m2 * 2 ^ nat (e2 - e)) e)"
| "plus_double x y = NonFinite"

fun times_double :: "double \<Rightarrow> double \<Rightarrow> double" where
  "times_double (Dbl m1 e1) (Dbl m2 e2) = round_double (m1 * m2) (e1 + e2)"
| "times_double x y = NonFinite"

instance ..

end

text \<open>
  \<open>is_double_of q d\<close>: \<open>d\<close> is a number of the format, and no number of the format is
  nearer to the rational \<open>q\<close> (it lies within half a unit of the last place). This is how
  a decimal literal of the program is read.
\<close>

definition pow2 :: "int \<Rightarrow> rat" where
  "pow2 e = (if 0 \<le> e then 2 ^ nat e else 1 / 2 ^ nat (- e))"

fun is_double_of :: "rat \<Rightarrow> double \<Rightarrow> bool" where
  "is_double_of q (Dbl m e) =
     (- 1074 \<le> e \<and> e \<le> 971 \<and> \<bar>m\<bar> < 2 ^ 53 \<and> (2 ^ 52 \<le> \<bar>m\<bar> \<or> e = - 1074) \<and>
      2 * \<bar>q - of_int m * pow2 e\<bar> \<le> pow2 e)"
| "is_double_of q NonFinite = False"

text \<open>The numbers of the scenario: 0.1, 0.2, 0.3, 2.0, 3.0, 4.0, 5.0, 5.4 and \<open>2 ^ 53\<close>.\<close>

definition dbl_0_1 :: double where
  "dbl_0_1 = Dbl 7205759403792794 (- 56)"

definition dbl_0_2 :: double where
  "dbl_0_2 = Dbl 7205759403792794 (- 55)"

definition dbl_0_3 :: double where
  "dbl_0_3 = Dbl 5404319552844595 (- 54)"

definition dbl_2 :: double where
  "dbl_2 = Dbl 4503599627370496 (- 51)"

definition dbl_3 :: double where
  "dbl_3 = Dbl 6755399441055744 (- 51)"

definition dbl_4 :: double where
  "dbl_4 = Dbl 4503599627370496 (- 50)"

definition dbl_5 :: double where
  "dbl_5 = Dbl 5629499534213120 (- 50)"

definition dbl_5_4 :: double where
  "dbl_5_4 = Dbl 6079859496950170 (- 50)"

definition dbl_2_53 :: double where
  "dbl_2_53 = Dbl 4503599627370496 1"

section \<open>A scenario\<close>

text \<open>
  A policy algorithm, a curiosity module and an entropy-target controller with fixed
  answers, and the agents built from them, on binary64 numbers. The curiosity module
  computes the intrinsic reward \<open>0.2\<close> when it is asked to, and leaves the placeholder
  \<^verbatim>\<open>()\<close> otherwise.
\<close>

definition scenario_rl :: "double pyval \<Rightarrow> bool \<Rightarrow> double rl_algorithm" where
  "scenario_rl action_spec debug_summaries =
     \<lparr>rl_train_state_spec = Obj 1,
      rl_predict_state_spec = Obj 2,
      rl_predict = (\<lambda>h ts s. \<lparr>ps_action = Obj 3, ps_state = Obj 4, ps_info = Unit\<rparr>),
      rl_rollout = (\<lambda>h ts s. \<lparr>ps_action = Obj 3, ps_state = Obj 4, ps_info = Obj 5\<rparr>),
      rl_calc_loss = (\<lambda>h ti. \<lparr>loss = Num (Tensor 1), scalar_loss = Unit, extra = Obj 6\<rparr>),
      rl_preprocess_experience = (\<lambda>h x. x)\<rparr>"

definition scenario_icm :: "double icm_algorithm" where
  "scenario_icm =
     \<lparr>alg_calc_loss = (\<lambda>h i. \<lparr>loss = Unit, scalar_loss = Num (Tensor dbl_2), extra = Obj 7\<rparr>),
      icm_train_state_spec = Obj 8,
      icm_predict_state_spec = Obj 8,
      icm_train_step = (\<lambda>h inputs s calc_intrinsic_reward.
         \<lparr>as_outputs = Unit, as_state = Obj 9,
          as_info = ICMInfo (if calc_intrinsic_reward then Num (PyFloat dbl_0_2) else Unit) (Obj 10)\<rparr>)\<rparr>"

definition scenario_et :: "double pyval \<Rightarrow> bool \<Rightarrow> double entropy_target_algorithm" where
  "scenario_et action_spec debug_summaries =
     \<lparr>alg_calc_loss = (\<lambda>h i. \<lparr>loss = Num (Tensor dbl_3), scalar_loss = Unit, extra = Obj 11\<rparr>),
      et_train_step = (\<lambda>h a. \<lparr>as_outputs = Unit, as_state = Unit, as_info = Obj 12\<rparr>)\<rparr>"

text \<open>The policy alone, with both reward coefficients 1.\<close>

definition plain_agent :: "double agent" where
  "plain_agent = Agent_init (Obj 0) scenario_rl None None 1 1 False scenario_et False"

text \<open>Policy and curiosity module, intrinsic reward coefficient 2, no entropy controller.\<close>

definition curious_agent :: "double agent" where
  "curious_agent =
     Agent_init (Obj 0) scenario_rl None (Some scenario_icm) dbl_2 1 False scenario_et False"

text \<open>All three sub-algorithms, behind an encoding network.\<close>

definition scenario_encoder :: "double call list \<Rightarrow> double pyval \<Rightarrow> double pyval \<times> double pyval" where
  "scenario_encoder h obs = (Obj 13, Unit)"

definition full_agent :: "double agent" where
  "full_agent =
     Agent_init (Obj 0) scenario_rl (Some scenario_encoder) (Some scenario_icm) dbl_2 1 True
       scenario_et False"



definition env0 :: "double env" where
  "env0 = \<lparr>trace = [], next_id = 1\<rparr>"

definition reward5 :: "double pyobj" where
  "reward5 = \<lparr>oid = 0, oval = PyFloat dbl_5\<rparr>"

definition step0 :: "double time_step" where
  "step0 = \<lparr>observation = Obj 20, prev_action = Obj 21, ts_rest = Unit\<rparr>"

definition state0 :: "double agent_state" where
  "state0 = \<lparr>state_rl = Obj 22, state_icm = Obj 23\<rparr>"

text \<open>The info of a live step of the curiosity module, with a float and with a tensor reward.\<close>

definition info_float :: "double agent_info" where
  "info_float = \<lparr>info_rl = Obj 5, info_icm = ICMInfo (Num (PyFloat dbl_0_2)) (Obj 10),
                 info_entropy_target = Unit\<rparr>"

definition info_tensor :: "double agent_info" where
  "info_tensor = \<lparr>info_rl = Obj 5, info_icm = ICMInfo (Num (Tensor dbl_0_2)) (Obj 10),
                  info_entropy_target = Obj 12\<rparr>"

definition training_info0 :: "(double, double agent_info) training_info" where
  "training_info0 = \<lparr>ti_reward = reward5, ti_info = info_tensor, ti_rest = Obj 30\<rparr>"

definition experience0 :: "double experience" where
  "experience0 = \<lparr>exp_reward = reward5, exp_info = info_tensor, exp_rest = Obj 31\<rparr>"

section \<open>Facts about the trace\<close>




lemma new_calls_same: "new_calls e e = []"
  by (simp add: new_calls_def)

lemma sub_losses_append:
  "trace e' = trace e @ cs \<Longrightarrow> sub_losses e e' = concat (map loss_returned cs)"
  by (simp add: sub_losses_def new_calls_def)

lemma rl_loss_inputs_append:
  "trace e' = trace e @ cs \<Longrightarrow> rl_loss_inputs e e' = concat (map rl_loss_input cs)"
  by (simp add: rl_loss_inputs_def new_calls_def)

lemma encode_cases:
  "encode self ts e =
     (case encoding_network self of
        None \<Rightarrow> (observation ts, e)
      | Some net \<Rightarrow> (fst (net (trace e) (observation ts)),
                     record_call (EncodingNetwork (observation ts) (net (trace e) (observation ts))) e))"
  by (simp add: encode_def Let_def split: option.splits)

lemma predict_eq:
  "predict self ts st e =
     (let obs = fst (encode self ts e);
          e1 = snd (encode self ts e);
          arg = ts\<lparr>observation := obs\<rparr>;
          rl_step = rl_predict (rl_algorithm self) (trace e1) arg (state_rl st)
      in (\<lparr>ps_action = ps_action rl_step,
           ps_state = \<lparr>state_rl = ps_state rl_step, state_icm = Unit\<rparr>,
           ps_info = Unit\<rparr>,
          record_call (RlPredict arg (state_rl st) rl_step) e1))"
  by (simp add: predict_def Let_def AgentState_def split: prod.splits)

section \<open>Binary64 arithmetic, evaluated\<close>

lemmas double_defs =
  dbl_0_1_def dbl_0_2_def dbl_0_3_def dbl_2_def dbl_3_def dbl_4_def dbl_5_def dbl_5_4_def
  dbl_2_53_def one_double_def zero_double_def

lemmas double_eval =
  round_double_def round_half_even_def bit_length.simps Let_def

text \<open>The constants are the binary64 numbers that the decimal literals denote.\<close>

lemma double_literals:
  "is_double_of 0.1 dbl_0_1" "is_double_of 0.2 dbl_0_2" "is_double_of 0.3 dbl_0_3"
  "is_double_of 2 dbl_2" "is_double_of 3 dbl_3" "is_double_of 4 dbl_4" "is_double_of 5 dbl_5"
  "is_double_of 5.4 dbl_5_4" "is_double_of (2 ^ 53) dbl_2_53" "is_double_of 1 1" "is_double_of 0 0"
  by (simp_all add: double_defs pow2_def)

lemma double_scenario_reward: "dbl_5 + dbl_2 * dbl_0_2 = dbl_5_4"
  by (simp add: double_defs double_eval)

lemma double_scenario_loss: "1 + dbl_3 = dbl_4"
  by (simp add: double_defs double_eval)

text \<open>
  The arithmetic rounds as the format does: \<open>2 ^ 53 + 1\<close> is \<open>2 ^ 53\<close>, and
  \<open>0.1 + 1.0 * 0.2\<close> is not the number that \<open>0.3\<close> denotes.
\<close>

lemma double_rounds: "dbl_2_53 + 1 = dbl_2_53" "dbl_0_1 + 1 * dbl_0_2 \<noteq> dbl_0_3"
  by (simp_all add: double_defs double_eval)

lemma double_times_commute: "x * y = y * (x :: double)"
  by (cases x; cases y) (simp_all add: mult.commute add.commute)

section \<open>The scenario, evaluated\<close>

lemma plain_agent_fields:
  "rl_algorithm plain_agent = scenario_rl (Obj 0) False"
  "entropy_target_algorithm plain_agent = None"
  "encoding_network plain_agent = None"
  "intrinsic_reward_coef plain_agent = 1"
  "extrinsic_reward_coef plain_agent = 1"
  "icm plain_agent = None"
  by (simp_all add: plain_agent_def Agent_init_def Let_def)

lemma curious_agent_fields:
  "rl_algorithm curious_agent = scenario_rl (Obj 0) False"
  "entropy_target_algorithm curious_agent = None"
  "encoding_network curious_agent = None"
  "intrinsic_reward_coef curious_agent = dbl_2"
  "extrinsic_reward_coef curious_agent = 1"
  "icm curious_agent = Some scenario_icm"
  by (simp_all add: curious_agent_def Agent_init_def Let_def)

lemma full_agent_fields:
  "rl_algorithm full_agent = scenario_rl (Obj 0) False"
  "entropy_target_algorithm full_agent = Some (scenario_et (Obj 0) False)"
  "encoding_network full_agent = Some scenario_encoder"
  "intrinsic_reward_coef full_agent = dbl_2"
  "extrinsic_reward_coef full_agent = 1"
  "icm full_agent = Some scenario_icm"
  by (simp_all add: full_agent_def Agent_init_def Let_def)

lemmas scenario_defs =
  training_info0_def experience0_def info_tensor_def info_float_def reward5_def env0_def
  step0_def state0_def scenario_rl_def scenario_icm_def scenario_et_def scenario_encoder_def

lemmas run_defs =
  calc_loss_def calc_loss_training_info_def calc_training_reward_def new_object_def
  add_reward_summary_def record_call_def calc_loss_update_loss_def getattr_AgentInfo_def
  replace_AgentLossInfo_def calc_loss_add_def AgentLossInfo_def Let_def

section \<open>Reward composition, case by case\<close>

lemma calc_training_reward_plain:
  "icm self = None \<Longrightarrow> extrinsic_reward_coef self = 1 \<Longrightarrow>
   calc_training_reward self r info e = (Inr r, e)"
  by (simp add: calc_training_reward_def)

lemma calc_training_reward_scaled:
  "icm self = None \<Longrightarrow> extrinsic_reward_coef self \<noteq> 1 \<Longrightarrow>
   calc_training_reward self r info e =
     (Inr \<lparr>oid = next_id e, oval = num_mul (oval r) (extrinsic_reward_coef self)\<rparr>,
      if next_id e \<noteq> oid r
      then \<lparr>trace = trace e @ [AddRewardSummary ''reward/overall''
                                  (Num (num_mul (oval r) (extrinsic_reward_coef self)))],
            next_id = Suc (next_id e)\<rparr>
      else \<lparr>trace = trace e, next_id = Suc (next_id e)\<rparr>)"
  by (simp add: calc_training_reward_def new_object_def add_reward_summary_def record_call_def)

lemma calc_training_reward_icm:
  "icm self = Some m \<Longrightarrow> getattr_reward (info_icm info) = Inr v \<Longrightarrow> float_mul (intrinsic_reward_coef self) v = Inr x \<Longrightarrow>
   calc_training_reward self r info e =
     (let scaled = (extrinsic_reward_coef self \<noteq> 1);
          v1 = (if scaled then num_mul (oval r) (extrinsic_reward_coef self) else oval r);
          n = (if scaled then Suc (next_id e) else next_id e);
          v2 = num_add v1 x
      in (Inr \<lparr>oid = n, oval = v2\<rparr>,
          \<lparr>trace = trace e @ AddRewardSummary ''reward/icm'' v #
                     (if n \<noteq> oid r then [AddRewardSummary ''reward/overall'' (Num v2)] else []),
           next_id = Suc n\<rparr>))"
  by (simp add: calc_training_reward_def new_object_def add_reward_summary_def record_call_def Let_def)

lemma calc_training_reward_icm_attr:
  "icm self = Some m \<Longrightarrow> getattr_reward (info_icm info) = Inl err \<Longrightarrow>
   calc_training_reward self r info e =
     (Inl err, if extrinsic_reward_coef self \<noteq> 1 then e\<lparr>next_id := Suc (next_id e)\<rparr> else e)"
  by (simp add: calc_training_reward_def new_object_def add_reward_summary_def record_call_def Let_def)

lemma calc_training_reward_icm_type:
  "icm self = Some m \<Longrightarrow> getattr_reward (info_icm info) = Inr v \<Longrightarrow> float_mul (intrinsic_reward_coef self) v = Inl err \<Longrightarrow>
   calc_training_reward self r info e =
     (Inl err, \<lparr>trace = trace e @ [AddRewardSummary ''reward/icm'' v],
                next_id = (if extrinsic_reward_coef self \<noteq> 1 then Suc (next_id e) else next_id e)\<rparr>)"
  by (simp add: calc_training_reward_def new_object_def add_reward_summary_def record_call_def Let_def)

lemma num_val_mul: "num_val (num_mul v c) = num_val v * c"
  by (cases v) simp_all

lemma num_val_add: "num_val (num_add x y) = num_val x + num_val y"
  by (cases x; cases y) simp_all

lemma float_mul_Num: "float_mul c (Num i) = Inr (case i of PyFloat x \<Rightarrow> PyFloat (c * x) | Tensor t \<Rightarrow> Tensor (c * t))"
  by (cases i) simp_all

lemma reward_curious_tensor:
  "calc_training_reward curious_agent reward5 info_tensor env0 =
     (Inr \<lparr>oid = 1, oval = Tensor dbl_5_4\<rparr>,
      \<lparr>trace = [AddRewardSummary ''reward/icm'' (Num (Tensor dbl_0_2)),
                AddRewardSummary ''reward/overall'' (Num (Tensor dbl_5_4))],
       next_id = 2\<rparr>)"
  by (simp add: run_defs curious_agent_fields scenario_defs double_scenario_reward)

lemma reward_full_tensor:
  "calc_training_reward full_agent reward5 info_tensor env0 =
     (Inr \<lparr>oid = 1, oval = Tensor dbl_5_4\<rparr>,
      \<lparr>trace = [AddRewardSummary ''reward/icm'' (Num (Tensor dbl_0_2)),
                AddRewardSummary ''reward/overall'' (Num (Tensor dbl_5_4))],
       next_id = 2\<rparr>)"
  by (simp add: run_defs full_agent_fields scenario_defs double_scenario_reward)

section \<open>Loss aggregation, step by step\<close>

lemma isinstance_Tensor_add:
  "isinstance_Tensor (calc_loss_add x y) = (isinstance_Tensor x \<or> isinstance_Tensor y)"
  by (cases x rule: isinstance_Tensor.cases; cases y rule: isinstance_Tensor.cases)
    (simp_all add: calc_loss_add_def)

lemma isinstance_Tensor_foldl:
  "isinstance_Tensor (foldl calc_loss_add x xs) = (isinstance_Tensor x \<or> list_ex isinstance_Tensor xs)"
  by (induction xs arbitrary: x) (simp_all add: isinstance_Tensor_add)

lemma isinstance_Tensor_add_in_order:
  "isinstance_Tensor (add_in_order xs) = list_ex isinstance_Tensor xs"
  by (cases xs) (simp_all add: isinstance_Tensor_foldl)

text \<open>Folding \<^verbatim>\<open>_add\<close> leaves out what is not a tensor and adds the tensors in order.\<close>

lemma calc_loss_add_tensors:
  "calc_loss_add (Num (Tensor a)) (Num (Tensor b)) = Num (Tensor (a + b))"
  by (simp add: calc_loss_add_def)

lemma calc_loss_add_right_other: "\<not> isinstance_Tensor y \<Longrightarrow> calc_loss_add x y = x"
  by (simp add: calc_loss_add_def)

lemma calc_loss_add_left_other:
  "\<not> isinstance_Tensor x \<Longrightarrow> calc_loss_add x (Num (Tensor b)) = Num (Tensor b)"
  by (simp add: calc_loss_add_def)

lemma tensors_other: "\<not> isinstance_Tensor x \<Longrightarrow> tensors (x # xs) = tensors xs"
  by (cases x rule: isinstance_Tensor.cases) simp_all

lemma foldl_add_tensor:
  "foldl calc_loss_add (Num (Tensor t)) xs = Num (Tensor (foldl (+) t (tensors xs)))"
proof (induction xs arbitrary: t)
  case Nil
  show ?case by simp
next
  case (Cons x xs)
  show ?case
  proof (cases "isinstance_Tensor x")
    case True
    then obtain u where "x = Num (Tensor u)"
      by (cases x rule: isinstance_Tensor.cases) simp_all
    then show ?thesis by (simp add: calc_loss_add_tensors Cons)
  next
    case False
    then show ?thesis by (simp add: calc_loss_add_right_other tensors_other Cons)
  qed
qed

lemma foldl_add_other:
  "\<not> isinstance_Tensor x \<Longrightarrow>
   foldl calc_loss_add x xs =
     (case tensors xs of [] \<Rightarrow> x | t # ts \<Rightarrow> Num (Tensor (foldl (+) t ts)))"
proof (induction xs)
  case Nil
  show ?case by simp
next
  case (Cons y ys)
  show ?case
  proof (cases "isinstance_Tensor y")
    case True
    then obtain u where "y = Num (Tensor u)"
      by (cases y rule: isinstance_Tensor.cases) simp_all
    then show ?thesis
      using Cons.prems by (simp add: calc_loss_add_left_other foldl_add_tensor)
  next
    case False
    then show ?thesis
      using Cons by (simp add: calc_loss_add_right_other tensors_other)
  qed
qed

lemma add_in_order_tensor_sum: "add_in_order xs = tensor_sum xs"
proof (cases xs)
  case Nil
  then show ?thesis by (simp add: tensor_sum_def)
next
  case (Cons x ys)
  show ?thesis
  proof (cases "isinstance_Tensor x")
    case True
    then obtain t where "x = Num (Tensor t)"
      by (cases x rule: isinstance_Tensor.cases) simp_all
    then show ?thesis using Cons by (simp add: tensor_sum_def foldl_add_tensor)
  next
    case False
    then show ?thesis
      using Cons by (simp add: tensor_sum_def foldl_add_other tensors_other split: list.split)
  qed
qed

lemma update_loss_None: "calc_loss_update_loss li ti name None e = (Inr li, e)"
  by (simp add: calc_loss_update_loss_def)

lemma update_loss_icm:
  "calc_loss_update_loss li ti ''icm'' (Some a) e =
     (let n = alg_calc_loss a (trace e) (info_icm (ti_info ti))
      in (Inr \<lparr>loss = calc_loss_add (loss li) (loss n),
               scalar_loss = calc_loss_add (scalar_loss li) (scalar_loss n),
               extra = (extra li)\<lparr>extra_icm := extra n\<rparr>\<rparr>,
          record_call (CalcLoss ''icm'' (info_icm (ti_info ti)) n) e))"
  by (simp add: calc_loss_update_loss_def getattr_AgentInfo_def replace_AgentLossInfo_def Let_def)

lemma update_loss_entropy_target:
  "calc_loss_update_loss li ti ''entropy_target'' (Some a) e =
     (let n = alg_calc_loss a (trace e) (info_entropy_target (ti_info ti))
      in (Inr \<lparr>loss = calc_loss_add (loss li) (loss n),
               scalar_loss = calc_loss_add (scalar_loss li) (scalar_loss n),
               extra = (extra li)\<lparr>extra_entropy_target := extra n\<rparr>\<rparr>,
          record_call (CalcLoss ''entropy_target'' (info_entropy_target (ti_info ti)) n) e))"
  by (simp add: calc_loss_update_loss_def getattr_AgentInfo_def replace_AgentLossInfo_def Let_def)

text \<open>The first statement of calc_loss, case by case.\<close>

lemma training_info_no_icm:
  "icm self = None \<Longrightarrow> calc_loss_training_info self ti e = (Inr ti, e)"
  by (simp add: calc_loss_training_info_def)

lemma training_info_no_attr:
  "icm self = Some m \<Longrightarrow> getattr_reward (info_icm (ti_info ti)) = Inl err \<Longrightarrow>
   calc_loss_training_info self ti e = (Inl err, e)"
  by (simp add: calc_loss_training_info_def)

lemma training_info_not_tensor:
  "icm self = Some m \<Longrightarrow> getattr_reward (info_icm (ti_info ti)) = Inr v \<Longrightarrow> \<not> isinstance_Tensor v \<Longrightarrow>
   calc_loss_training_info self ti e = (Inr ti, e)"
  by (simp add: calc_loss_training_info_def)

lemma training_info_tensor:
  "icm self = Some m \<Longrightarrow> info_icm (ti_info ti) = ICMInfo (Num (Tensor t)) x \<Longrightarrow>
   \<exists>r e1 cs. calc_training_reward self (ti_reward ti) (ti_info ti) e = (Inr r, e1) \<and>
         calc_loss_training_info self ti e = (Inr (ti\<lparr>ti_reward := r\<rparr>), e1) \<and>
         trace e1 = trace e @ cs \<and> concat (map loss_returned cs) = [] \<and>
         concat (map rl_loss_input cs) = []"
proof -
  assume m: "icm self = Some m" and i: "info_icm (ti_info ti) = ICMInfo (Num (Tensor t)) x"
  have g: "getattr_reward (info_icm (ti_info ti)) = Inr (Num (Tensor t))" using i by simp
  have f: "float_mul (intrinsic_reward_coef self) (Num (Tensor t)) = Inr (Tensor (intrinsic_reward_coef self * t))"
    by simp
  show ?thesis
    using m i calc_training_reward_icm [OF m g f, of "ti_reward ti" e]
    by (simp add: calc_loss_training_info_def Let_def)
qed

text \<open>The rest of calc_loss, once the training-info is settled.\<close>

lemma calc_loss_rest:
  assumes "calc_loss_training_info self ti e = (Inr ti', e1)"
  shows "calc_loss self ti e =
     (let arg = \<lparr>ti_reward = ti_reward ti', ti_info = info_rl (ti_info ti'), ti_rest = ti_rest ti'\<rparr>;
          r0 = rl_calc_loss (rl_algorithm self) (trace e1) arg;
          e2 = record_call (RlCalcLoss arg r0) e1;
          li0 = \<lparr>loss = loss r0, scalar_loss = scalar_loss r0, extra = AgentLossInfo (extra r0)\<rparr>
      in case calc_loss_update_loss li0 ti' ''icm'' (icm self) e2 of
           (Inl err, e3) \<Rightarrow> (Inl err, e3)
         | (Inr li1, e3) \<Rightarrow>
             calc_loss_update_loss li1 ti' ''entropy_target'' (entropy_target_algorithm self) e3)"
  using assms by (simp add: calc_loss_def Let_def)

lemma calc_loss_error:
  assumes "calc_loss_training_info self ti e = (Inl err, e1)"
  shows "calc_loss self ti e = (Inl err, e1)"
  using assms by (simp add: calc_loss_def)

lemma calc_loss_settled:
  assumes "calc_loss_training_info self ti e = (Inr ti', e1)"
  shows "calc_loss self ti e =
     (Inr (spec_loss_info (concat (map loss_returned (spec_loss_calls self ti' (trace e1))))),
      e1\<lparr>trace := trace e1 @ spec_loss_calls self ti' (trace e1)\<rparr>)"
  by (cases "icm self"; cases "entropy_target_algorithm self")
    (simp_all add: calc_loss_rest [OF assms] Let_def update_loss_None update_loss_icm
      update_loss_entropy_target record_call_def AgentLossInfo_def spec_loss_calls_def
      spec_loss_info_def spec_extra_def)

lemma spec_loss_names:
  "map fst (concat (map loss_returned (spec_loss_calls self ti h))) =
     ''rl'' # (case icm self of None \<Rightarrow> [] | Some m \<Rightarrow> [''icm'']) @
       (case entropy_target_algorithm self of None \<Rightarrow> [] | Some t \<Rightarrow> [''entropy_target''])"
  by (simp add: spec_loss_calls_def Let_def split: option.splits)

lemma training_info_cases:
  "\<exists>res e1 cs. calc_loss_training_info self ti e = (res, e1) \<and>
      trace e1 = trace e @ cs \<and> concat (map loss_returned cs) = [] \<and>
      concat (map rl_loss_input cs) = [] \<and>
      (case res of
         Inl err \<Rightarrow> icm self \<noteq> None \<and> getattr_reward (info_icm (ti_info ti)) = Inl err \<and> cs = []
       | Inr ti' \<Rightarrow> ti_info ti' = ti_info ti \<and> ti_rest ti' = ti_rest ti \<and>
           (if icm self \<noteq> None \<and> (\<exists>t x. info_icm (ti_info ti) = ICMInfo (Num (Tensor t)) x)
            then calc_training_reward self (ti_reward ti) (ti_info ti) e = (Inr (ti_reward ti'), e1)
            else ti_reward ti' = ti_reward ti \<and> cs = []))"
proof (cases "icm self")
  case None
  then show ?thesis by (simp add: training_info_no_icm)
next
  case (Some m)
  show ?thesis
  proof (cases "getattr_reward (info_icm (ti_info ti))")
    case (Inl err)
    then show ?thesis using Some by (simp add: training_info_no_attr)
  next
    case (Inr v)
    show ?thesis
    proof (cases "isinstance_Tensor v")
      case False
      then have "\<not> (\<exists>t x. info_icm (ti_info ti) = ICMInfo (Num (Tensor t)) x)"
        using Inr by auto
      then show ?thesis using Some Inr False
        by (simp add: training_info_not_tensor)
    next
      case True
      then obtain t where v: "v = Num (Tensor t)"
        by (cases v rule: isinstance_Tensor.cases) simp_all
      obtain x where i: "info_icm (ti_info ti) = ICMInfo (Num (Tensor t)) x"
        using Inr v by (cases "info_icm (ti_info ti)") simp_all
      from training_info_tensor [OF Some i, of e] show ?thesis
        using Some i by auto
    qed
  qed
qed

lemma spec_rl_loss_inputs:
  "concat (map rl_loss_input (spec_loss_calls self ti h)) =
     [\<lparr>ti_reward = ti_reward ti, ti_info = info_rl (ti_info ti), ti_rest = ti_rest ti\<rparr>]"
  by (cases "icm self"; cases "entropy_target_algorithm self")
    (simp_all add: spec_loss_calls_def Let_def)

lemma spec_loss_calls_policy_only:
  "icm self = None \<Longrightarrow> entropy_target_algorithm self = None \<Longrightarrow>
   spec_loss_calls self ti h =
     [RlCalcLoss \<lparr>ti_reward = ti_reward ti, ti_info = info_rl (ti_info ti), ti_rest = ti_rest ti\<rparr>
        (rl_calc_loss (rl_algorithm self) h
           \<lparr>ti_reward = ti_reward ti, ti_info = info_rl (ti_info ti), ti_rest = ti_rest ti\<rparr>)]"
  by (simp add: spec_loss_calls_def Let_def)

lemma calc_loss_shape:
  "\<exists>res e' cs. calc_loss self ti e = (res, e') \<and> trace e' = trace e @ cs \<and>
     (case calc_loss_training_info self ti e of
        (Inl err, e1) \<Rightarrow> res = Inl err \<and> cs = []
      | (Inr ti', e1) \<Rightarrow>
          res = Inr (spec_loss_info (concat (map loss_returned (spec_loss_calls self ti' (trace e1))))) \<and>
          sub_losses e e' = concat (map loss_returned (spec_loss_calls self ti' (trace e1))) \<and>
          rl_loss_inputs e e' =
            [\<lparr>ti_reward = ti_reward ti', ti_info = info_rl (ti_info ti), ti_rest = ti_rest ti\<rparr>] \<and>
          rl_loss_inputs e1 e' = rl_loss_inputs e e')"
proof -
  obtain res e1 cs where c: "calc_loss_training_info self ti e = (res, e1)"
    and t: "trace e1 = trace e @ cs" and l: "concat (map loss_returned cs) = []"
    and i: "concat (map rl_loss_input cs) = []"
    and r: "case res of
         Inl err \<Rightarrow> icm self \<noteq> None \<and> getattr_reward (info_icm (ti_info ti)) = Inl err \<and> cs = []
       | Inr ti' \<Rightarrow> ti_info ti' = ti_info ti \<and> ti_rest ti' = ti_rest ti \<and>
           (if icm self \<noteq> None \<and> (\<exists>t x. info_icm (ti_info ti) = ICMInfo (Num (Tensor t)) x)
            then calc_training_reward self (ti_reward ti) (ti_info ti) e = (Inr (ti_reward ti'), e1)
            else ti_reward ti' = ti_reward ti \<and> cs = [])"
    using training_info_cases [of self ti e] by blast
  show ?thesis
  proof (cases res)
    case (Inl err)
    then show ?thesis using c r t by (simp add: calc_loss_error)
  next
    case (Inr ti')
    have eq: "ti_info ti' = ti_info ti" "ti_rest ti' = ti_rest ti" using r Inr by simp_all
    let ?cs = "spec_loss_calls self ti' (trace e1)"
    let ?e' = "e1\<lparr>trace := trace e1 @ ?cs\<rparr>"
    have cl: "calc_loss self ti e = (Inr (spec_loss_info (concat (map loss_returned ?cs))), ?e')"
      using c Inr by (simp add: calc_loss_settled)
    have tr: "trace ?e' = trace e @ (cs @ ?cs)" using t by simp
    have sl: "sub_losses e ?e' = concat (map loss_returned ?cs)"
      using sub_losses_append [OF tr] l by simp
    have ri: "rl_loss_inputs e ?e' =
        [\<lparr>ti_reward = ti_reward ti', ti_info = info_rl (ti_info ti), ti_rest = ti_rest ti\<rparr>]"
      using rl_loss_inputs_append [OF tr] i eq by (simp add: spec_rl_loss_inputs)
    have tr1: "trace ?e' = trace e1 @ ?cs" by simp
    have ri1: "rl_loss_inputs e1 ?e' =
        [\<lparr>ti_reward = ti_reward ti', ti_info = info_rl (ti_info ti), ti_rest = ti_rest ti\<rparr>]"
      using rl_loss_inputs_append [OF tr1] eq by (simp add: spec_rl_loss_inputs)
    show ?thesis using cl c Inr tr sl ri ri1 by simp
  qed
qed

lemma calc_loss_full:
  "calc_loss full_agent training_info0 env0 =
    (Inr \<lparr>loss = Num (Tensor dbl_4), scalar_loss = Num (Tensor dbl_2),
          extra = \<lparr>extra_rl = Obj 6, extra_icm = Obj 7, extra_entropy_target = Obj 11\<rparr>\<rparr>,
     \<lparr>trace =
       [AddRewardSummary ''reward/icm'' (Num (Tensor dbl_0_2)),
        AddRewardSummary ''reward/overall'' (Num (Tensor dbl_5_4)),
        RlCalcLoss \<lparr>ti_reward = \<lparr>oid = 1, oval = Tensor dbl_5_4\<rparr>, ti_info = Obj 5, ti_rest = Obj 30\<rparr>
          \<lparr>loss = Num (Tensor 1), scalar_loss = Unit, extra = Obj 6\<rparr>,
        CalcLoss ''icm'' (ICMInfo (Num (Tensor dbl_0_2)) (Obj 10))
          \<lparr>loss = Unit, scalar_loss = Num (Tensor dbl_2), extra = Obj 7\<rparr>,
        CalcLoss ''entropy_target'' (Obj 12)
          \<lparr>loss = Num (Tensor dbl_3), scalar_loss = Unit, extra = Obj 11\<rparr>],
      next_id = 2\<rparr>)"
  by (simp add: run_defs full_agent_fields scenario_defs double_scenario_reward
      double_scenario_loss)

lemma calc_loss_plain:
  "calc_loss plain_agent training_info0 env0 =
    (Inr \<lparr>loss = Num (Tensor 1), scalar_loss = Unit,
          extra = \<lparr>extra_rl = Obj 6, extra_icm = Unit, extra_entropy_target = Unit\<rparr>\<rparr>,
     \<lparr>trace =
       [RlCalcLoss \<lparr>ti_reward = \<lparr>oid = 0, oval = PyFloat dbl_5\<rparr>, ti_info = Obj 5, ti_rest = Obj 30\<rparr>
          \<lparr>loss = Num (Tensor 1), scalar_loss = Unit, extra = Obj 6\<rparr>],
      next_id = 1\<rparr>)"
  by (simp add: run_defs plain_agent_fields scenario_defs)

lemma calc_loss_curious:
  "calc_loss curious_agent training_info0 env0 =
    (Inr \<lparr>loss = Num (Tensor 1), scalar_loss = Num (Tensor dbl_2),
          extra = \<lparr>extra_rl = Obj 6, extra_icm = Obj 7, extra_entropy_target = Unit\<rparr>\<rparr>,
     \<lparr>trace =
       [AddRewardSummary ''reward/icm'' (Num (Tensor dbl_0_2)),
        AddRewardSummary ''reward/overall'' (Num (Tensor dbl_5_4)),
        RlCalcLoss \<lparr>ti_reward = \<lparr>oid = 1, oval = Tensor dbl_5_4\<rparr>, ti_info = Obj 5, ti_rest = Obj 30\<rparr>
          \<lparr>loss = Num (Tensor 1), scalar_loss = Unit, extra = Obj 6\<rparr>,
        CalcLoss ''icm'' (ICMInfo (Num (Tensor dbl_0_2)) (Obj 10))
          \<lparr>loss = Unit, scalar_loss = Num (Tensor dbl_2), extra = Obj 7\<rparr>],
      next_id = 2\<rparr>)"
  by (simp add: run_defs curious_agent_fields scenario_defs double_scenario_reward)

lemma perform_agent: "fst (perform self c e) = self"
  by (cases c) simp_all

lemma lifetime_agent: "fst (lifetime self cs e) = self"
proof (induction cs arbitrary: e)
  case Nil
  show ?case by simp
next
  case (Cons c cs)
  obtain e' where p: "perform self c e = (self, e')"
    using perform_agent [of self c e] by (cases "perform self c e") simp
  show ?case using Cons [of e'] by (simp add: p)
qed

section \<open>Predict\<close>

text \<open>
  C10. The step that \<^verbatim>\<open>predict\<close> returns carries \<^verbatim>\<open>()\<close> as its info. Its state has
  \<^verbatim>\<open>rl\<close> set to the state that the policy sub-algorithm's \<^verbatim>\<open>predict\<close> returned,
  called on the encoded observation and the \<^verbatim>\<open>rl\<close> sub-state, and \<^verbatim>\<open>icm\<close> is the
  empty default whatever the input state holds there: the \<^verbatim>\<open>icm\<close> sub-state of the
  input is not read.
\<close>

theorem predict_drops_icm_state:
  "ps_info (fst (predict self ts st e)) = Unit \<and>
   state_icm (ps_state (fst (predict self ts st e))) = Unit \<and>
   state_rl (ps_state (fst (predict self ts st e))) =
     ps_state (rl_predict (rl_algorithm self) (trace (snd (encode self ts e)))
                 (ts\<lparr>observation := fst (encode self ts e)\<rparr>) (state_rl st)) \<and>
   predict self ts (st\<lparr>state_icm := x\<rparr>) e = predict self ts st e"
  by (simp add: predict_eq Let_def)

theorem predict_drops_icm_state_witness:
  "state_icm state0 = Obj 23 \<and>
   fst (predict full_agent step0 state0 env0) =
     \<lparr>ps_action = Obj 3, ps_state = \<lparr>state_rl = Obj 4, state_icm = Unit\<rparr>, ps_info = Unit\<rparr>"
proof -
  from predict_drops_icm_state [where self = full_agent and ts = step0 and st = state0 and e = env0]
  have "ps_info (fst (predict full_agent step0 state0 env0)) = Unit"
    "state_icm (ps_state (fst (predict full_agent step0 state0 env0))) = Unit"
    "state_rl (ps_state (fst (predict full_agent step0 state0 env0))) = Obj 4"
    by (simp_all add: full_agent_fields scenario_rl_def)
  moreover have "ps_action (fst (predict full_agent step0 state0 env0)) = Obj 3"
    by (simp add: predict_eq Let_def full_agent_fields scenario_rl_def)
  ultimately have "fst (predict full_agent step0 state0 env0) =
     \<lparr>ps_action = Obj 3, ps_state = \<lparr>state_rl = Obj 4, state_icm = Unit\<rparr>, ps_info = Unit\<rparr>"
    by (cases "fst (predict full_agent step0 state0 env0)";
        cases "ps_state (fst (predict full_agent step0 state0 env0))") simp
  then show ?thesis by (simp add: state0_def)
qed




section \<open>Rollout\<close>

text \<open>
  C3. \<^verbatim>\<open>rollout\<close> makes its calls in a fixed order, each sub-algorithm seeing the
  calls made before it: the encoding network on the observation, if there is one; the
  curiosity module's \<^verbatim>\<open>train_step\<close> on the encoded observation and the previous action
  with its \<^verbatim>\<open>icm\<close> sub-state, if there is one, asked to compute the intrinsic reward
  exactly when \<^verbatim>\<open>with_experience\<close> is false; the policy sub-algorithm's \<^verbatim>\<open>rollout\<close>
  on the encoded observation; the entropy-target controller's \<^verbatim>\<open>train_step\<close> on the
  policy's action, if it is enabled. The action returned is the policy's, and the
  fields of the returned state and info come from the corresponding steps, or are
  \<^verbatim>\<open>()\<close> where the sub-algorithm is absent.
\<close>

theorem rollout_order:
  "\<exists>enc obs icms rl_step ets.
     (case encoding_network self of
        None \<Rightarrow> enc = [] \<and> obs = observation ts
      | Some net \<Rightarrow>
          enc = [EncodingNetwork (observation ts) (net (trace e) (observation ts))] \<and>
          obs = fst (net (trace e) (observation ts))) \<and>
     (case icm self of
        None \<Rightarrow>
          icms = [] \<and>
          state_icm (ps_state (fst (rollout self ts st with_experience e))) = Unit \<and>
          info_icm (ps_info (fst (rollout self ts st with_experience e))) = Unit
      | Some m \<Rightarrow>
          icms = [IcmTrainStep (obs, prev_action ts) (state_icm st) (\<not> with_experience)
                    (icm_train_step m (trace e @ enc) (obs, prev_action ts) (state_icm st)
                       (\<not> with_experience))] \<and>
          state_icm (ps_state (fst (rollout self ts st with_experience e))) =
            as_state (icm_train_step m (trace e @ enc) (obs, prev_action ts) (state_icm st)
                        (\<not> with_experience)) \<and>
          info_icm (ps_info (fst (rollout self ts st with_experience e))) =
            as_info (icm_train_step m (trace e @ enc) (obs, prev_action ts) (state_icm st)
                       (\<not> with_experience))) \<and>
     rl_step = rl_rollout (rl_algorithm self) (trace e @ enc @ icms)
                 (ts\<lparr>observation := obs\<rparr>) (state_rl st) \<and>
     ps_action (fst (rollout self ts st with_experience e)) = ps_action rl_step \<and>
     state_rl (ps_state (fst (rollout self ts st with_experience e))) = ps_state rl_step \<and>
     info_rl (ps_info (fst (rollout self ts st with_experience e))) = ps_info rl_step \<and>
     (case entropy_target_algorithm self of
        None \<Rightarrow>
          ets = [] \<and>
          info_entropy_target (ps_info (fst (rollout self ts st with_experience e))) = Unit
      | Some t \<Rightarrow>
          ets = [EntropyTargetTrainStep (ps_action rl_step)
                   (et_train_step t
                      (trace e @ enc @ icms @
                         [RlRollout (ts\<lparr>observation := obs\<rparr>) (state_rl st) rl_step])
                      (ps_action rl_step))] \<and>
          info_entropy_target (ps_info (fst (rollout self ts st with_experience e))) =
            as_info (et_train_step t
                      (trace e @ enc @ icms @
                         [RlRollout (ts\<lparr>observation := obs\<rparr>) (state_rl st) rl_step])
                      (ps_action rl_step))) \<and>
     trace (snd (rollout self ts st with_experience e)) =
       trace e @ enc @ icms @ [RlRollout (ts\<lparr>observation := obs\<rparr>) (state_rl st) rl_step] @ ets \<and>
     next_id (snd (rollout self ts st with_experience e)) = next_id e"
  by (cases "encoding_network self"; cases "icm self"; cases "entropy_target_algorithm self")
    (simp_all add: rollout_def encode_cases Let_def AgentState_def AgentInfo_def record_call_def)

theorem rollout_order_witness:
  "trace (snd (rollout full_agent step0 state0 True env0)) =
     [EncodingNetwork (Obj 20) (Obj 13, Unit),
      IcmTrainStep (Obj 13, Obj 21) (Obj 23) False
        \<lparr>as_outputs = Unit, as_state = Obj 9, as_info = ICMInfo Unit (Obj 10)\<rparr>,
      RlRollout \<lparr>observation = Obj 13, prev_action = Obj 21, ts_rest = Unit\<rparr> (Obj 22)
        \<lparr>ps_action = Obj 3, ps_state = Obj 4, ps_info = Obj 5\<rparr>,
      EntropyTargetTrainStep (Obj 3) \<lparr>as_outputs = Unit, as_state = Unit, as_info = Obj 12\<rparr>] \<and>
   info_icm (ps_info (fst (rollout full_agent step0 state0 True env0))) = ICMInfo Unit (Obj 10) \<and>
   info_icm (ps_info (fst (rollout full_agent step0 state0 False env0))) =
     ICMInfo (Num (PyFloat dbl_0_2)) (Obj 10) \<and>
   ps_state (fst (rollout full_agent step0 state0 True env0)) = \<lparr>state_rl = Obj 4, state_icm = Obj 9\<rparr>"
proof -
  from rollout_order [where self = full_agent and ts = step0 and e = env0 and st = state0
      and with_experience = True]
  have 1: "trace (snd (rollout full_agent step0 state0 True env0)) =
     [EncodingNetwork (Obj 20) (Obj 13, Unit),
      IcmTrainStep (Obj 13, Obj 21) (Obj 23) False
        \<lparr>as_outputs = Unit, as_state = Obj 9, as_info = ICMInfo Unit (Obj 10)\<rparr>,
      RlRollout \<lparr>observation = Obj 13, prev_action = Obj 21, ts_rest = Unit\<rparr> (Obj 22)
        \<lparr>ps_action = Obj 3, ps_state = Obj 4, ps_info = Obj 5\<rparr>,
      EntropyTargetTrainStep (Obj 3) \<lparr>as_outputs = Unit, as_state = Unit, as_info = Obj 12\<rparr>] \<and>
   info_icm (ps_info (fst (rollout full_agent step0 state0 True env0))) = ICMInfo Unit (Obj 10) \<and>
   state_icm (ps_state (fst (rollout full_agent step0 state0 True env0))) = Obj 9 \<and>
   state_rl (ps_state (fst (rollout full_agent step0 state0 True env0))) = Obj 4"
    by (auto simp: full_agent_fields scenario_defs)
  from rollout_order [where self = full_agent and ts = step0 and e = env0 and st = state0
      and with_experience = False]
  have 2: "info_icm (ps_info (fst (rollout full_agent step0 state0 False env0))) =
     ICMInfo (Num (PyFloat dbl_0_2)) (Obj 10)"
    by (auto simp: full_agent_fields scenario_defs)
  have "ps_state (fst (rollout full_agent step0 state0 True env0)) =
      \<lparr>state_rl = Obj 4, state_icm = Obj 9\<rparr>"
    using 1 by (cases "ps_state (fst (rollout full_agent step0 state0 True env0))") simp
  then show ?thesis using 1 2 by simp
qed

section \<open>Reward composition\<close>

text \<open>
  C2. With a curiosity module and an info whose \<^verbatim>\<open>icm\<close> field carries the numeric
  intrinsic reward \<open>i\<close>, \<^verbatim>\<open>calc_training_reward\<close> returns a reward whose value is the
  sum of the external reward, multiplied by \<open>extrinsic_reward_coef\<close> unless that is 1,
  and of \<open>intrinsic_reward_coef * i\<close>, in the arithmetic of the runtime. It creates one
  new object when the extrinsic coefficient is 1 (the multiplication is skipped) and
  two otherwise. In binary64 a product does not depend on the order of its factors.
  Without curiosity and with extrinsic coefficient 1, the reward 5.0 comes back as 5.0;
  with a curiosity reward 0.2 and intrinsic coefficient 2.0 the result is the binary64
  number that 5.4 denotes.
\<close>

theorem calc_training_reward_formula:
  "(icm self = Some m \<and> info_icm info = ICMInfo (Num i) x \<longrightarrow>
      (\<exists>r' e'. calc_training_reward self r info e = (Inr r', e') \<and>
         num_val (oval r') =
           (if extrinsic_reward_coef self = 1 then num_val (oval r)
            else num_val (oval r) * extrinsic_reward_coef self) +
           intrinsic_reward_coef self * num_val i \<and>
         next_id e' = next_id e + (if extrinsic_reward_coef self = 1 then 1 else 2))) \<and>
   (p :: double) * q = q * p \<and>
   is_double_of 5 dbl_5 \<and> is_double_of 2 dbl_2 \<and> is_double_of 0.2 dbl_0_2 \<and>
   is_double_of 5.4 dbl_5_4 \<and> is_double_of 1 1 \<and>
   (icm ag = None \<and> extrinsic_reward_coef ag = 1 \<and> oval rd = PyFloat dbl_5 \<longrightarrow>
      (\<exists>r'. fst (calc_training_reward ag rd infd ed) = Inr r' \<and> oval r' = PyFloat dbl_5)) \<and>
   (icm ag = Some md \<and> extrinsic_reward_coef ag = 1 \<and> intrinsic_reward_coef ag = dbl_2 \<and>
    oval rd = PyFloat dbl_5 \<and> info_icm infd = ICMInfo (Num (PyFloat dbl_0_2)) xd \<longrightarrow>
      (\<exists>r'. fst (calc_training_reward ag rd infd ed) = Inr r' \<and> oval r' = PyFloat dbl_5_4))"
proof (intro conjI impI)
  assume a: "icm self = Some m \<and> info_icm info = ICMInfo (Num i) x"
  then have g: "getattr_reward (info_icm info) = Inr (Num i)" by simp
  show "\<exists>r' e'. calc_training_reward self r info e = (Inr r', e') \<and>
         num_val (oval r') =
           (if extrinsic_reward_coef self = 1 then num_val (oval r)
            else num_val (oval r) * extrinsic_reward_coef self) +
           intrinsic_reward_coef self * num_val i \<and>
         next_id e' = next_id e + (if extrinsic_reward_coef self = 1 then 1 else 2)"
    using a calc_training_reward_icm [OF _ g float_mul_Num, of self m r e]
    by (cases i) (simp_all add: Let_def num_val_add num_val_mul)
next
  show "p * q = q * p" by (rule double_times_commute)
next
  assume "icm ag = None \<and> extrinsic_reward_coef ag = 1 \<and> oval rd = PyFloat dbl_5"
  then show "\<exists>r'. fst (calc_training_reward ag rd infd ed) = Inr r' \<and> oval r' = PyFloat dbl_5"
    by (simp add: calc_training_reward_plain)
next
  assume a: "icm ag = Some md \<and> extrinsic_reward_coef ag = 1 \<and> intrinsic_reward_coef ag = dbl_2 \<and>
    oval rd = PyFloat dbl_5 \<and> info_icm infd = ICMInfo (Num (PyFloat dbl_0_2)) xd"
  then have g: "getattr_reward (info_icm infd) = Inr (Num (PyFloat dbl_0_2))" by simp
  show "\<exists>r'. fst (calc_training_reward ag rd infd ed) = Inr r' \<and> oval r' = PyFloat dbl_5_4"
    using a calc_training_reward_icm [OF _ g float_mul_Num, of ag md rd ed]
    by (simp add: Let_def double_scenario_reward)
qed (rule double_literals)+

theorem calc_training_reward_formula_witness:
  "icm curious_agent = Some scenario_icm \<and>
   info_icm info_float = ICMInfo (Num (PyFloat dbl_0_2)) (Obj 10) \<and>
   extrinsic_reward_coef curious_agent = 1 \<and> intrinsic_reward_coef curious_agent = dbl_2 \<and>
   oval reward5 = PyFloat dbl_5 \<and>
   (\<exists>r'. fst (calc_training_reward curious_agent reward5 info_float env0) = Inr r' \<and>
      oval r' = PyFloat dbl_5_4) \<and>
   (\<exists>r' e'. calc_training_reward curious_agent reward5 info_float env0 = (Inr r', e') \<and>
      num_val (oval r') = dbl_5 + dbl_2 * dbl_0_2) \<and>
   icm plain_agent = None \<and> extrinsic_reward_coef plain_agent = 1 \<and>
   (\<exists>r'. fst (calc_training_reward plain_agent reward5 AgentInfo env0) = Inr r' \<and>
      oval r' = PyFloat dbl_5)"
proof -
  have h1: "icm curious_agent = Some scenario_icm \<and> extrinsic_reward_coef curious_agent = 1 \<and>
    intrinsic_reward_coef curious_agent = dbl_2 \<and> oval reward5 = PyFloat dbl_5 \<and>
    info_icm info_float = ICMInfo (Num (PyFloat dbl_0_2)) (Obj 10)"
    by (simp add: curious_agent_fields reward5_def info_float_def)
  have h2: "icm plain_agent = None \<and> extrinsic_reward_coef plain_agent = 1 \<and>
    oval reward5 = PyFloat dbl_5"
    by (simp add: plain_agent_fields reward5_def)
  note t1 = calc_training_reward_formula
      [where self = curious_agent and m = scenario_icm and info = info_float
        and i = "PyFloat dbl_0_2" and x = "Obj 10" and r = reward5 and e = env0
        and ag = curious_agent and md = scenario_icm and rd = reward5 and infd = info_float
        and xd = "Obj 10" and ed = env0]
  note t2 = calc_training_reward_formula
      [where ag = plain_agent and rd = reward5 and infd = AgentInfo and ed = env0]
  have a: "\<exists>r'. fst (calc_training_reward curious_agent reward5 info_float env0) = Inr r' \<and>
      oval r' = PyFloat dbl_5_4"
    using t1 h1 by blast
  have "\<exists>r' e'. calc_training_reward curious_agent reward5 info_float env0 = (Inr r', e') \<and>
      num_val (oval r') =
        (if extrinsic_reward_coef curious_agent = 1 then num_val (oval reward5)
         else num_val (oval reward5) * extrinsic_reward_coef curious_agent) +
        intrinsic_reward_coef curious_agent * num_val (PyFloat dbl_0_2) \<and>
      next_id e' = next_id env0 + (if extrinsic_reward_coef curious_agent = 1 then 1 else 2)"
    using t1 h1 by blast
  then have b: "\<exists>r' e'. calc_training_reward curious_agent reward5 info_float env0 = (Inr r', e') \<and>
      num_val (oval r') = dbl_5 + dbl_2 * dbl_0_2"
    using h1 by auto
  have c: "\<exists>r'. fst (calc_training_reward plain_agent reward5 AgentInfo env0) = Inr r' \<and>
      oval r' = PyFloat dbl_5"
    using t2 h2 by blast
  show ?thesis using h1 h2 a b c by blast
qed

text \<open>
  C5. With extrinsic coefficient 1 and no curiosity module, \<^verbatim>\<open>calc_training_reward\<close>
  returns the very object it was given and leaves the environment as it was, so no
  diagnostic is emitted. Whenever it returns, the combined-reward diagnostic has been
  emitted exactly when the returned object is not the input object; when it raises,
  that diagnostic has not been emitted. For an input object that exists already, the
  returned object differs from it exactly when the reward was scaled or an intrinsic
  reward was added.
\<close>

theorem calc_training_reward_identity:
  "(icm self = None \<and> extrinsic_reward_coef self = 1 \<longrightarrow>
      calc_training_reward self r info e = (Inr r, e)) \<and>
   (\<forall>r' e'. calc_training_reward self r info e = (Inr r', e') \<longrightarrow>
      list_ex is_overall_summary (new_calls e e') = (oid r' \<noteq> oid r)) \<and>
   (\<forall>err e'. calc_training_reward self r info e = (Inl err, e') \<longrightarrow>
      \<not> list_ex is_overall_summary (new_calls e e')) \<and>
   (\<forall>r' e'. oid r < next_id e \<and> calc_training_reward self r info e = (Inr r', e') \<longrightarrow>
      (oid r' \<noteq> oid r) = (extrinsic_reward_coef self \<noteq> 1 \<or> icm self \<noteq> None))"
proof (cases "icm self")
  case None
  then show ?thesis
    by (cases "extrinsic_reward_coef self = 1")
      (auto simp: calc_training_reward_plain calc_training_reward_scaled new_calls_def)
next
  case (Some m)
  show ?thesis
  proof (cases "getattr_reward (info_icm info)")
    case (Inl err)
    then show ?thesis using Some
      by (auto simp: calc_training_reward_icm_attr new_calls_def)
  next
    case (Inr v)
    show ?thesis
    proof (cases "float_mul (intrinsic_reward_coef self) v")
      case (Inl err)
      then show ?thesis using Some Inr
        by (auto simp: calc_training_reward_icm_type new_calls_def)
    next
      case x: (Inr x)
      show ?thesis using Some Inr x
        by (auto simp: calc_training_reward_icm new_calls_def Let_def)
    qed
  qed
qed

theorem calc_training_reward_identity_witness:
  "icm plain_agent = None \<and> extrinsic_reward_coef plain_agent = 1 \<and>
   calc_training_reward plain_agent reward5 AgentInfo env0 = (Inr reward5, env0) \<and>
   \<not> list_ex is_overall_summary (new_calls env0 env0) \<and>
   oid reward5 < next_id env0 \<and>
   (\<exists>r' e'. calc_training_reward curious_agent reward5 info_tensor env0 = (Inr r', e') \<and>
      oid r' \<noteq> oid reward5 \<and> list_ex is_overall_summary (new_calls env0 e'))"
proof -
  have p: "icm plain_agent = None \<and> extrinsic_reward_coef plain_agent = 1"
    by (simp add: plain_agent_fields)
  have 1: "calc_training_reward plain_agent reward5 AgentInfo env0 = (Inr reward5, env0)"
    using calc_training_reward_identity [of plain_agent reward5 AgentInfo env0] p by blast
  have 2: "list_ex is_overall_summary (new_calls env0 env0) = (oid reward5 \<noteq> oid reward5)"
    using calc_training_reward_identity [of plain_agent reward5 AgentInfo env0] 1 by blast
  have f: "oid reward5 < next_id env0" by (simp add: scenario_defs)
  obtain r' e' where c: "calc_training_reward curious_agent reward5 info_tensor env0 = (Inr r', e')"
    by (simp add: reward_curious_tensor)
  have 3: "list_ex is_overall_summary (new_calls env0 e') = (oid r' \<noteq> oid reward5)"
    using calc_training_reward_identity [of curious_agent reward5 info_tensor env0] c by blast
  have 4: "(oid r' \<noteq> oid reward5) =
      (extrinsic_reward_coef curious_agent \<noteq> 1 \<or> icm curious_agent \<noteq> None)"
    using calc_training_reward_identity [of curious_agent reward5 info_tensor env0] c f by blast
  have "oid r' \<noteq> oid reward5" using 4 by (simp add: curious_agent_fields)
  then show ?thesis using p 1 2 3 f c by blast
qed

section \<open>Loss aggregation\<close>

text \<open>
  C1. For a training-info that \<^verbatim>\<open>calc_loss\<close> can read (no curiosity module, or an
  \<^verbatim>\<open>icm\<close> info with a reward attribute), \<^verbatim>\<open>calc_loss\<close> returns a loss record. The
  sub-algorithms that computed a loss are the policy, then the curiosity module if
  present, then the entropy-target controller if present. Total loss and scalar loss
  are the losses of these sub-algorithms added in that order by \<^verbatim>\<open>_add\<close>: that is, the
  sum, from left to right and by the tensor library's addition, of the sub-losses that
  are tensors, none left out and nothing else added, while a sub-loss that is not a
  tensor contributes nothing. They are tensors exactly when some sub-loss is. With
  neither curiosity module nor entropy controller, they are the policy sub-algorithm's
  losses.
\<close>

theorem calc_loss_sums:
  assumes wf: "icm self = None \<or> (\<exists>r x. info_icm (ti_info ti) = ICMInfo r x)"
  shows "\<exists>li e'. calc_loss self ti e = (Inr li, e') \<and>
     map fst (sub_losses e e') =
       ''rl'' # (case icm self of None \<Rightarrow> [] | Some m \<Rightarrow> [''icm'']) @
         (case entropy_target_algorithm self of None \<Rightarrow> [] | Some t \<Rightarrow> [''entropy_target'']) \<and>
     loss li = add_in_order (map (loss \<circ> snd) (sub_losses e e')) \<and>
     scalar_loss li = add_in_order (map (scalar_loss \<circ> snd) (sub_losses e e')) \<and>
     loss li = tensor_sum (map (loss \<circ> snd) (sub_losses e e')) \<and>
     scalar_loss li = tensor_sum (map (scalar_loss \<circ> snd) (sub_losses e e')) \<and>
     isinstance_Tensor (loss li) = list_ex (isinstance_Tensor \<circ> loss \<circ> snd) (sub_losses e e') \<and>
     isinstance_Tensor (scalar_loss li) =
       list_ex (isinstance_Tensor \<circ> scalar_loss \<circ> snd) (sub_losses e e') \<and>
     (icm self = None \<and> entropy_target_algorithm self = None \<longrightarrow>
        loss li = loss (rl_calc_loss (rl_algorithm self) (trace e)
                    \<lparr>ti_reward = ti_reward ti, ti_info = info_rl (ti_info ti), ti_rest = ti_rest ti\<rparr>) \<and>
        scalar_loss li = scalar_loss (rl_calc_loss (rl_algorithm self) (trace e)
                    \<lparr>ti_reward = ti_reward ti, ti_info = info_rl (ti_info ti), ti_rest = ti_rest ti\<rparr>))"
proof -
  obtain res e1 cs where c: "calc_loss_training_info self ti e = (res, e1)"
    and t: "trace e1 = trace e @ cs"
    and r: "case res of
         Inl err \<Rightarrow> icm self \<noteq> None \<and> getattr_reward (info_icm (ti_info ti)) = Inl err \<and> cs = []
       | Inr ti' \<Rightarrow> ti_info ti' = ti_info ti \<and> ti_rest ti' = ti_rest ti \<and>
           (if icm self \<noteq> None \<and> (\<exists>t x. info_icm (ti_info ti) = ICMInfo (Num (Tensor t)) x)
            then calc_training_reward self (ti_reward ti) (ti_info ti) e = (Inr (ti_reward ti'), e1)
            else ti_reward ti' = ti_reward ti \<and> cs = [])"
    using training_info_cases [of self ti e] by blast
  have "\<not> isl res" using r wf by (cases res) auto
  then obtain ti' where res: "res = Inr ti'" by (cases res) simp_all
  let ?subs = "concat (map loss_returned (spec_loss_calls self ti' (trace e1)))"
  obtain e' where cl: "calc_loss self ti e = (Inr (spec_loss_info ?subs), e')"
    and sl: "sub_losses e e' = ?subs"
    using calc_loss_shape [of self ti e] c res by auto
  have names: "map fst (sub_losses e e') =
       ''rl'' # (case icm self of None \<Rightarrow> [] | Some m \<Rightarrow> [''icm'']) @
         (case entropy_target_algorithm self of None \<Rightarrow> [] | Some t \<Rightarrow> [''entropy_target''])"
    by (simp only: sl spec_loss_names)
  have fold: "loss (spec_loss_info ?subs) = add_in_order (map (loss \<circ> snd) (sub_losses e e'))"
    "scalar_loss (spec_loss_info ?subs) = add_in_order (map (scalar_loss \<circ> snd) (sub_losses e e'))"
    by (simp_all only: sl spec_loss_info_def loss_info.simps)
  have sums: "loss (spec_loss_info ?subs) = tensor_sum (map (loss \<circ> snd) (sub_losses e e'))"
    "scalar_loss (spec_loss_info ?subs) = tensor_sum (map (scalar_loss \<circ> snd) (sub_losses e e'))"
    by (simp_all only: fold add_in_order_tensor_sum)
  have kinds: "isinstance_Tensor (loss (spec_loss_info ?subs)) =
        list_ex (isinstance_Tensor \<circ> loss \<circ> snd) (sub_losses e e')"
    "isinstance_Tensor (scalar_loss (spec_loss_info ?subs)) =
        list_ex (isinstance_Tensor \<circ> scalar_loss \<circ> snd) (sub_losses e e')"
    by (simp_all only: fold isinstance_Tensor_add_in_order
        map_map list_ex_iff set_map image_image bex_simps comp_def image_iff)
  have alone: "loss (spec_loss_info ?subs) = loss (rl_calc_loss (rl_algorithm self) (trace e)
                    \<lparr>ti_reward = ti_reward ti, ti_info = info_rl (ti_info ti), ti_rest = ti_rest ti\<rparr>) \<and>
        scalar_loss (spec_loss_info ?subs) = scalar_loss (rl_calc_loss (rl_algorithm self) (trace e)
                    \<lparr>ti_reward = ti_reward ti, ti_info = info_rl (ti_info ti), ti_rest = ti_rest ti\<rparr>)"
    if n: "icm self = None \<and> entropy_target_algorithm self = None"
  proof -
    have "calc_loss_training_info self ti e = (Inr ti, e)"
      using n by (simp add: training_info_no_icm)
    then have "ti' = ti" "e1 = e" using c res by simp_all
    then show ?thesis using n
      by (simp add: spec_loss_calls_policy_only spec_loss_info_def)
  qed
  show ?thesis
    using cl names fold sums kinds alone
    by (intro exI [of _ "spec_loss_info ?subs"] exI [of _ e']) simp
qed

theorem calc_loss_sums_witness:
  "(icm full_agent = None \<or> (\<exists>r x. info_icm (ti_info training_info0) = ICMInfo r x)) \<and>
   (\<exists>li e'. calc_loss full_agent training_info0 env0 = (Inr li, e') \<and>
      map fst (sub_losses env0 e') = [''rl'', ''icm'', ''entropy_target''] \<and>
      map (loss \<circ> snd) (sub_losses env0 e') = [Num (Tensor 1), Unit, Num (Tensor dbl_3)] \<and>
      loss li = Num (Tensor dbl_4) \<and>
      loss li = tensor_sum (map (loss \<circ> snd) (sub_losses env0 e')) \<and>
      tensor_sum (map (loss \<circ> snd) (sub_losses env0 e')) = Num (Tensor (1 + dbl_3)) \<and>
      scalar_loss li = Num (Tensor dbl_2))"
proof -
  have h: "icm full_agent = None \<or> (\<exists>r x. info_icm (ti_info training_info0) = ICMInfo r x)"
    by (simp add: scenario_defs)
  from calc_loss_sums [OF h, of env0]
  obtain li e' where a: "calc_loss full_agent training_info0 env0 = (Inr li, e')"
    and b: "loss li = tensor_sum (map (loss \<circ> snd) (sub_losses env0 e'))"
    by blast
  from a [unfolded calc_loss_full] have li: "loss li = Num (Tensor dbl_4)"
      "scalar_loss li = Num (Tensor dbl_2)"
    and e': "trace e' = trace env0 @
       [AddRewardSummary ''reward/icm'' (Num (Tensor dbl_0_2)),
        AddRewardSummary ''reward/overall'' (Num (Tensor dbl_5_4)),
        RlCalcLoss \<lparr>ti_reward = \<lparr>oid = 1, oval = Tensor dbl_5_4\<rparr>, ti_info = Obj 5, ti_rest = Obj 30\<rparr>
          \<lparr>loss = Num (Tensor 1), scalar_loss = Unit, extra = Obj 6\<rparr>,
        CalcLoss ''icm'' (ICMInfo (Num (Tensor dbl_0_2)) (Obj 10))
          \<lparr>loss = Unit, scalar_loss = Num (Tensor dbl_2), extra = Obj 7\<rparr>,
        CalcLoss ''entropy_target'' (Obj 12)
          \<lparr>loss = Num (Tensor dbl_3), scalar_loss = Unit, extra = Obj 11\<rparr>]"
    by (auto simp: env0_def)
  have subs: "sub_losses env0 e' =
      [(''rl'', \<lparr>loss = Num (Tensor 1), scalar_loss = Unit, extra = Obj 6\<rparr>),
       (''icm'', \<lparr>loss = Unit, scalar_loss = Num (Tensor dbl_2), extra = Obj 7\<rparr>),
       (''entropy_target'', \<lparr>loss = Num (Tensor dbl_3), scalar_loss = Unit, extra = Obj 11\<rparr>)]"
    by (simp add: sub_losses_append [OF e'])
  have ts: "tensor_sum (map (loss \<circ> snd) (sub_losses env0 e')) = Num (Tensor (1 + dbl_3))"
    by (simp add: subs tensor_sum_def)
  show ?thesis
  proof (rule conjI [OF h], intro exI)
    show "calc_loss full_agent training_info0 env0 = (Inr li, e') \<and>
      map fst (sub_losses env0 e') = [''rl'', ''icm'', ''entropy_target''] \<and>
      map (loss \<circ> snd) (sub_losses env0 e') = [Num (Tensor 1), Unit, Num (Tensor dbl_3)] \<and>
      loss li = Num (Tensor dbl_4) \<and>
      loss li = tensor_sum (map (loss \<circ> snd) (sub_losses env0 e')) \<and>
      tensor_sum (map (loss \<circ> snd) (sub_losses env0 e')) = Num (Tensor (1 + dbl_3)) \<and>
      scalar_loss li = Num (Tensor dbl_2)"
      using a b li ts by (simp add: subs)
  qed
qed

text \<open>
  C4. The training-info that reaches the policy's loss computation carries the
  reward recomputed by \<^verbatim>\<open>calc_training_reward\<close>, computed before the loss, when a
  curiosity module is present and the reward in the \<^verbatim>\<open>icm\<close> info is a tensor. In every
  other case the reward reaches the loss computation unchanged, or \<^verbatim>\<open>calc_loss\<close>
  raises before any loss is computed.
\<close>

theorem calc_loss_reward_substitution:
  "\<forall>res e'. calc_loss self ti e = (res, e') \<longrightarrow>
     (if icm self \<noteq> None \<and> (\<exists>t x. info_icm (ti_info ti) = ICMInfo (Num (Tensor t)) x)
      then \<exists>r e1. calc_training_reward self (ti_reward ti) (ti_info ti) e = (Inr r, e1) \<and>
             rl_loss_inputs e1 e' =
               [\<lparr>ti_reward = r, ti_info = info_rl (ti_info ti), ti_rest = ti_rest ti\<rparr>] \<and>
             rl_loss_inputs e e' = rl_loss_inputs e1 e'
      else rl_loss_inputs e e' =
             (if isl res then []
              else [\<lparr>ti_reward = ti_reward ti, ti_info = info_rl (ti_info ti), ti_rest = ti_rest ti\<rparr>]))"
proof (intro allI impI)
  fix res e'
  assume cl: "calc_loss self ti e = (res, e')"
  obtain res1 e1 cs where c: "calc_loss_training_info self ti e = (res1, e1)"
    and t: "trace e1 = trace e @ cs"
    and r: "case res1 of
         Inl err \<Rightarrow> icm self \<noteq> None \<and> getattr_reward (info_icm (ti_info ti)) = Inl err \<and> cs = []
       | Inr ti' \<Rightarrow> ti_info ti' = ti_info ti \<and> ti_rest ti' = ti_rest ti \<and>
           (if icm self \<noteq> None \<and> (\<exists>t x. info_icm (ti_info ti) = ICMInfo (Num (Tensor t)) x)
            then calc_training_reward self (ti_reward ti) (ti_info ti) e = (Inr (ti_reward ti'), e1)
            else ti_reward ti' = ti_reward ti \<and> cs = [])"
    using training_info_cases [of self ti e] by blast
  note shape = calc_loss_shape [of self ti e]
  show "if icm self \<noteq> None \<and> (\<exists>t x. info_icm (ti_info ti) = ICMInfo (Num (Tensor t)) x)
      then \<exists>r e1. calc_training_reward self (ti_reward ti) (ti_info ti) e = (Inr r, e1) \<and>
             rl_loss_inputs e1 e' =
               [\<lparr>ti_reward = r, ti_info = info_rl (ti_info ti), ti_rest = ti_rest ti\<rparr>] \<and>
             rl_loss_inputs e e' = rl_loss_inputs e1 e'
      else rl_loss_inputs e e' =
             (if isl res then []
              else [\<lparr>ti_reward = ti_reward ti, ti_info = info_rl (ti_info ti), ti_rest = ti_rest ti\<rparr>])"
  proof (cases res1)
    case (Inl err)
    then have "\<not> (\<exists>t x. info_icm (ti_info ti) = ICMInfo (Num (Tensor t)) x)"
      using r by auto
    moreover have "res = Inl err" "rl_loss_inputs e e' = []"
      using shape cl c Inl by (auto simp: rl_loss_inputs_def new_calls_def)
    ultimately show ?thesis by simp
  next
    case (Inr ti')
    have res: "\<not> isl res"
      and ri: "rl_loss_inputs e e' =
            [\<lparr>ti_reward = ti_reward ti', ti_info = info_rl (ti_info ti), ti_rest = ti_rest ti\<rparr>]"
      and ri1: "rl_loss_inputs e1 e' = rl_loss_inputs e e'"
      using shape cl c Inr by auto
    show ?thesis
    proof (cases "icm self \<noteq> None \<and> (\<exists>t x. info_icm (ti_info ti) = ICMInfo (Num (Tensor t)) x)")
      case True
      then have "calc_training_reward self (ti_reward ti) (ti_info ti) e = (Inr (ti_reward ti'), e1)"
        using r Inr by simp
      then show ?thesis using True ri ri1 by auto
    next
      case False
      then have "ti_reward ti' = ti_reward ti" using r Inr by auto
      then show ?thesis by (subst if_not_P [OF False]) (simp add: ri res)
    qed
  qed
qed

theorem calc_loss_reward_substitution_witness:
  "icm curious_agent \<noteq> None \<and>
   info_icm (ti_info training_info0) = ICMInfo (Num (Tensor dbl_0_2)) (Obj 10) \<and>
   (\<exists>res e' r e1. calc_loss curious_agent training_info0 env0 = (res, e') \<and>
      calc_training_reward curious_agent (ti_reward training_info0) (ti_info training_info0) env0 =
        (Inr r, e1) \<and>
      oval r = Tensor dbl_5_4 \<and>
      rl_loss_inputs env0 e' = [\<lparr>ti_reward = r, ti_info = Obj 5, ti_rest = Obj 30\<rparr>]) \<and>
   icm plain_agent = None \<and>
   (\<exists>res e'. calc_loss plain_agent training_info0 env0 = (res, e') \<and>
      rl_loss_inputs env0 e' =
        [\<lparr>ti_reward = ti_reward training_info0, ti_info = Obj 5, ti_rest = Obj 30\<rparr>])"
proof -
  have i: "info_icm (ti_info training_info0) = ICMInfo (Num (Tensor dbl_0_2)) (Obj 10)"
    by (simp add: scenario_defs)
  have n: "icm curious_agent \<noteq> None" "icm plain_agent = None"
    by (simp_all add: curious_agent_fields plain_agent_fields)
  have c: "icm curious_agent \<noteq> None \<and>
      (\<exists>t x. info_icm (ti_info training_info0) = ICMInfo (Num (Tensor t)) x)"
    using i n by blast
  have p: "\<not> (icm plain_agent \<noteq> None \<and>
      (\<exists>t x. info_icm (ti_info training_info0) = ICMInfo (Num (Tensor t)) x))"
    using n by simp
  have t: "ti_reward training_info0 = reward5" "ti_rest training_info0 = Obj 30"
    "info_rl (ti_info training_info0) = Obj 5" "ti_info training_info0 = info_tensor"
    "info_rl info_tensor = Obj 5"
    by (simp_all add: scenario_defs)
  obtain res1 e1' where r1: "calc_loss curious_agent training_info0 env0 = (res1, e1')"
    by (cases "calc_loss curious_agent training_info0 env0")
  obtain res2 e2' where r2: "calc_loss plain_agent training_info0 env0 = (res2, e2')"
    by (cases "calc_loss plain_agent training_info0 env0")
  have res2: "\<not> isl res2" using r2 by (auto simp: calc_loss_plain)
  from calc_loss_reward_substitution [of curious_agent training_info0 env0, rule_format, OF r1]
  obtain r e1 where
    1: "calc_training_reward curious_agent (ti_reward training_info0) (ti_info training_info0) env0 =
        (Inr r, e1)"
    "rl_loss_inputs env0 e1' = [\<lparr>ti_reward = r, ti_info = Obj 5, ti_rest = Obj 30\<rparr>]"
    by (subst (asm) if_P [OF c]) (auto simp: t)
  have v: "oval r = Tensor dbl_5_4" using 1(1) by (auto simp: t reward_curious_tensor)
  from calc_loss_reward_substitution [of plain_agent training_info0 env0, rule_format, OF r2]
  have 2: "rl_loss_inputs env0 e2' =
      [\<lparr>ti_reward = ti_reward training_info0, ti_info = Obj 5, ti_rest = Obj 30\<rparr>]"
    by (subst (asm) if_not_P [OF p]) (simp add: t res2)
  show ?thesis using i n r1 r2 1 v 2 by blast
qed

text \<open>
  With policy and curiosity module but no entropy controller, the composite extra
  record still has the field \<^verbatim>\<open>entropy_target\<close>: its fields are those of the
  \<^verbatim>\<open>AgentLossInfo\<close> record, whatever is configured.
\<close>

theorem calc_loss_extra_keys_counterexample:
  "\<exists>li e'. calc_loss curious_agent training_info0 env0 = (Inr li, e') \<and>
     entropy_target_algorithm curious_agent = None \<and>
     map fst (asdict_AgentLossInfo (extra li)) = [''rl'', ''icm'', ''entropy_target''] \<and>
     ''entropy_target'' \<in> set (map fst (asdict_AgentLossInfo (extra li)))"
  by (simp add: calc_loss_curious curious_agent_fields asdict_AgentLossInfo_def)

text \<open>
  C6, amended. The composite extra record of a loss returned by \<^verbatim>\<open>calc_loss\<close> always
  has the three fields \<^verbatim>\<open>rl\<close>, \<^verbatim>\<open>icm\<close>, \<^verbatim>\<open>entropy_target\<close>. The field of a
  sub-algorithm that computed a loss holds the extra of that loss, and the field of an
  absent sub-algorithm holds \<^verbatim>\<open>()\<close>: without an entropy controller the field
  \<^verbatim>\<open>entropy_target\<close> is \<^verbatim>\<open>()\<close>.
\<close>

theorem calc_loss_extra_fields:
  "\<forall>li e'. calc_loss self ti e = (Inr li, e') \<longrightarrow>
     map fst (asdict_AgentLossInfo (extra li)) = [''rl'', ''icm'', ''entropy_target''] \<and>
     asdict_AgentLossInfo (extra li) =
       map (\<lambda>name. (name, spec_extra (sub_losses e e') name)) [''rl'', ''icm'', ''entropy_target''] \<and>
     map fst (sub_losses e e') =
       ''rl'' # (case icm self of None \<Rightarrow> [] | Some m \<Rightarrow> [''icm'']) @
         (case entropy_target_algorithm self of None \<Rightarrow> [] | Some t \<Rightarrow> [''entropy_target'']) \<and>
     (icm self = None \<longrightarrow> extra_icm (extra li) = Unit) \<and>
     (entropy_target_algorithm self = None \<longrightarrow> extra_entropy_target (extra li) = Unit)"
proof (intro allI impI)
  fix li e'
  assume cl: "calc_loss self ti e = (Inr li, e')"
  obtain res1 e1 where c: "calc_loss_training_info self ti e = (res1, e1)"
    by (cases "calc_loss_training_info self ti e")
  note shape = calc_loss_shape [of self ti e]
  obtain ti' where res1: "res1 = Inr ti'"
    using shape cl c by (cases res1) auto
  let ?subs = "concat (map loss_returned (spec_loss_calls self ti' (trace e1)))"
  have li: "li = spec_loss_info ?subs" and sl: "sub_losses e e' = ?subs"
    using shape cl c res1 by auto
  have names: "map fst (sub_losses e e') =
       ''rl'' # (case icm self of None \<Rightarrow> [] | Some m \<Rightarrow> [''icm'']) @
         (case entropy_target_algorithm self of None \<Rightarrow> [] | Some t \<Rightarrow> [''entropy_target''])"
    by (simp only: sl spec_loss_names)
  have fields: "asdict_AgentLossInfo (extra li) =
       map (\<lambda>name. (name, spec_extra (sub_losses e e') name)) [''rl'', ''icm'', ''entropy_target'']"
    by (simp add: li sl asdict_AgentLossInfo_def spec_loss_info_def)
  have no_icm: "extra_icm (extra li) = Unit" if "icm self = None"
    using that by (cases "entropy_target_algorithm self")
      (simp_all add: li spec_loss_info_def spec_extra_def spec_loss_calls_def Let_def)
  have no_et: "extra_entropy_target (extra li) = Unit" if "entropy_target_algorithm self = None"
    using that by (cases "icm self")
      (simp_all add: li spec_loss_info_def spec_extra_def spec_loss_calls_def Let_def)
  show "map fst (asdict_AgentLossInfo (extra li)) = [''rl'', ''icm'', ''entropy_target''] \<and>
     asdict_AgentLossInfo (extra li) =
       map (\<lambda>name. (name, spec_extra (sub_losses e e') name)) [''rl'', ''icm'', ''entropy_target''] \<and>
     map fst (sub_losses e e') =
       ''rl'' # (case icm self of None \<Rightarrow> [] | Some m \<Rightarrow> [''icm'']) @
         (case entropy_target_algorithm self of None \<Rightarrow> [] | Some t \<Rightarrow> [''entropy_target'']) \<and>
     (icm self = None \<longrightarrow> extra_icm (extra li) = Unit) \<and>
     (entropy_target_algorithm self = None \<longrightarrow> extra_entropy_target (extra li) = Unit)"
    using names fields no_icm no_et by (simp add: asdict_AgentLossInfo_def)
qed

theorem calc_loss_extra_fields_witness:
  "\<exists>li e'. calc_loss curious_agent training_info0 env0 = (Inr li, e') \<and>
     entropy_target_algorithm curious_agent = None \<and>
     asdict_AgentLossInfo (extra li) = [(''rl'', Obj 6), (''icm'', Obj 7), (''entropy_target'', Unit)]"
proof -
  obtain li e' where c: "calc_loss curious_agent training_info0 env0 = (Inr li, e')"
    by (simp add: calc_loss_curious)
  have n: "entropy_target_algorithm curious_agent = None" by (simp add: curious_agent_fields)
  note f = calc_loss_extra_fields [of curious_agent training_info0 env0, rule_format, OF c]
  have k: "map fst (asdict_AgentLossInfo (extra li)) = [''rl'', ''icm'', ''entropy_target'']"
    and t: "extra_entropy_target (extra li) = Unit"
    using f n by blast+
  have "extra_rl (extra li) = Obj 6" "extra_icm (extra li) = Obj 7"
    using c by (auto simp: calc_loss_curious)
  then have "asdict_AgentLossInfo (extra li) =
      [(''rl'', Obj 6), (''icm'', Obj 7), (''entropy_target'', Unit)]"
    using t by (simp add: asdict_AgentLossInfo_def)
  then show ?thesis using c n by blast
qed

section \<open>Construction\<close>

text \<open>
  An agent built with a curiosity module whose state specs are not empty has an
  empty \<^verbatim>\<open>icm\<close> field in its \<^verbatim>\<open>predict_state_spec\<close>.
\<close>

theorem predict_state_spec_counterexample:
  "icm curious_agent = Some scenario_icm \<and>
   state_icm (predict_state_spec curious_agent) = Unit \<and>
   state_icm (predict_state_spec curious_agent) \<noteq> icm_predict_state_spec scenario_icm \<and>
   state_icm (predict_state_spec curious_agent) \<noteq> icm_train_state_spec scenario_icm"
  by (simp add: curious_agent_def Agent_init_def Let_def AgentState_def scenario_icm_def)

text \<open>
  C7, amended. After construction, \<^verbatim>\<open>train_state_spec\<close> holds the policy
  algorithm's train state spec in \<^verbatim>\<open>rl\<close> and, in \<^verbatim>\<open>icm\<close>, the curiosity module's
  train state spec when there is one and \<^verbatim>\<open>()\<close> otherwise; \<^verbatim>\<open>predict_state_spec\<close>
  holds the policy algorithm's predict state spec in \<^verbatim>\<open>rl\<close> and \<^verbatim>\<open>()\<close> in
  \<^verbatim>\<open>icm\<close>, with or without a curiosity module. The entropy-target controller has no
  field. Both specs stay as they are through every sequence of calls of the agent's
  methods.
\<close>

theorem state_specs_of_agent:
  "train_state_spec
     (Agent_init action_spec rl_cls encoder curiosity ic ec enforce et_cls debug) =
     \<lparr>state_rl = rl_train_state_spec (rl_cls action_spec debug),
      state_icm = (case curiosity of None \<Rightarrow> Unit | Some m \<Rightarrow> icm_train_state_spec m)\<rparr> \<and>
   predict_state_spec
     (Agent_init action_spec rl_cls encoder curiosity ic ec enforce et_cls debug) =
     \<lparr>state_rl = rl_predict_state_spec (rl_cls action_spec debug), state_icm = Unit\<rparr> \<and>
   train_state_spec
     (fst (lifetime (Agent_init action_spec rl_cls encoder curiosity ic ec enforce et_cls debug) cs e)) =
     train_state_spec (Agent_init action_spec rl_cls encoder curiosity ic ec enforce et_cls debug) \<and>
   predict_state_spec
     (fst (lifetime (Agent_init action_spec rl_cls encoder curiosity ic ec enforce et_cls debug) cs e)) =
     predict_state_spec (Agent_init action_spec rl_cls encoder curiosity ic ec enforce et_cls debug)"
  by (cases curiosity) (simp_all add: lifetime_agent Agent_init_def Let_def AgentState_def)

theorem state_specs_of_agent_witness:
  "train_state_spec full_agent = \<lparr>state_rl = Obj 1, state_icm = Obj 8\<rparr> \<and>
   predict_state_spec full_agent = \<lparr>state_rl = Obj 2, state_icm = Unit\<rparr> \<and>
   predict_state_spec
     (fst (lifetime full_agent
        [DoRollout step0 state0 False, DoCalcLoss training_info0, DoPredict step0 state0] env0)) =
     \<lparr>state_rl = Obj 2, state_icm = Unit\<rparr>"
proof -
  note s = state_specs_of_agent
      [where action_spec = "Obj 0" and rl_cls = scenario_rl and encoder = "Some scenario_encoder"
        and curiosity = "Some scenario_icm" and ic = dbl_2 and ec = 1 and enforce = True
        and et_cls = scenario_et and debug = False and e = env0
        and cs = "[DoRollout step0 state0 False, DoCalcLoss training_info0, DoPredict step0 state0]",
        folded full_agent_def]
  have t: "train_state_spec full_agent = \<lparr>state_rl = Obj 1, state_icm = Obj 8\<rparr>"
    using s by (simp add: scenario_rl_def scenario_icm_def)
  have p: "predict_state_spec full_agent = \<lparr>state_rl = Obj 2, state_icm = Unit\<rparr>"
    using s by (simp add: scenario_rl_def)
  have "predict_state_spec
     (fst (lifetime full_agent
        [DoRollout step0 state0 False, DoCalcLoss training_info0, DoPredict step0 state0] env0)) =
     predict_state_spec full_agent"
    using s by blast
  then show ?thesis using t p by simp
qed

section \<open>Experience preprocessing\<close>

text \<open>
  C8. \<^verbatim>\<open>preprocess_experience\<close> applies \<^verbatim>\<open>calc_training_reward\<close> to the stored
  reward and info of the experience. When that returns a reward, the policy
  sub-algorithm's \<^verbatim>\<open>preprocess_experience\<close> is called on the experience with this
  reward in place of the stored one and its other fields as they were, and its answer is
  returned; when it raises, the exception is passed on and the policy sub-algorithm is
  not called.
\<close>

theorem preprocess_experience_delegates:
  "(\<forall>r e1. calc_training_reward self (exp_reward x) (exp_info x) e = (Inr r, e1) \<longrightarrow>
      preprocess_experience self x e =
        (Inr (rl_preprocess_experience (rl_algorithm self) (trace e1)
                \<lparr>exp_reward = r, exp_info = exp_info x, exp_rest = exp_rest x\<rparr>),
         e1\<lparr>trace := trace e1 @
              [RlPreprocessExperience \<lparr>exp_reward = r, exp_info = exp_info x, exp_rest = exp_rest x\<rparr>
                 (rl_preprocess_experience (rl_algorithm self) (trace e1)
                    \<lparr>exp_reward = r, exp_info = exp_info x, exp_rest = exp_rest x\<rparr>)]\<rparr>)) \<and>
   (\<forall>err e1. calc_training_reward self (exp_reward x) (exp_info x) e = (Inl err, e1) \<longrightarrow>
      preprocess_experience self x e = (Inl err, e1))"
  by (cases x) (simp add: preprocess_experience_def Let_def record_call_def)

theorem preprocess_experience_delegates_witness:
  "\<exists>r e1. calc_training_reward full_agent (exp_reward experience0) (exp_info experience0) env0 =
       (Inr r, e1) \<and>
     oval r = Tensor dbl_5_4 \<and>
     preprocess_experience full_agent experience0 env0 =
       (Inr \<lparr>exp_reward = r, exp_info = exp_info experience0, exp_rest = exp_rest experience0\<rparr>,
        e1\<lparr>trace := trace e1 @
          [RlPreprocessExperience
             \<lparr>exp_reward = r, exp_info = exp_info experience0, exp_rest = exp_rest experience0\<rparr>
             \<lparr>exp_reward = r, exp_info = exp_info experience0, exp_rest = exp_rest experience0\<rparr>]\<rparr>)"
proof -
  have x: "exp_reward experience0 = reward5" "exp_info experience0 = info_tensor"
    by (simp_all add: scenario_defs)
  obtain r e1 where c: "calc_training_reward full_agent (exp_reward experience0)
      (exp_info experience0) env0 = (Inr r, e1)" and v: "oval r = Tensor dbl_5_4"
    by (simp add: x reward_full_tensor)
  have id: "rl_preprocess_experience (rl_algorithm full_agent) h y = y" for h y
    by (simp add: full_agent_fields scenario_rl_def)
  from preprocess_experience_delegates [of full_agent experience0 env0] c
  have "preprocess_experience full_agent experience0 env0 =
       (Inr \<lparr>exp_reward = r, exp_info = exp_info experience0, exp_rest = exp_rest experience0\<rparr>,
        e1\<lparr>trace := trace e1 @
          [RlPreprocessExperience
             \<lparr>exp_reward = r, exp_info = exp_info experience0, exp_rest = exp_rest experience0\<rparr>
             \<lparr>exp_reward = r, exp_info = exp_info experience0, exp_rest = exp_rest experience0\<rparr>]\<rparr>)"
    by (simp add: id)
  then show ?thesis using c v by blast
qed

end

